theory Spec2Isabelle
  imports Complex_Main "HOL-Library.Word" "HOL-Library.Log_Nat"
begin

section \<open>Values on the wire\<close>

text \<open>
  Every message is a JSON value. A number of a JSON text is a rational. An
  object is the list of its members in source order (a later member with the
  same key wins, as in \<^verbatim>\<open>JSON.parse\<close>).
\<close>

datatype json =
    JNull
  | JBool bool
  | JNum rat
  | JStr string
  | JArr "json list"
  | JObj "(string \<times> json) list"

datatype error = SyntaxError | TypeError | InvalidStateError

text \<open>
  \<^verbatim>\<open>obj[0]\<close> on a parsed value: \<open>None\<close> is \<^verbatim>\<open>undefined\<close>; reading a
  property of \<^verbatim>\<open>null\<close> throws a TypeError.
\<close>

fun index0 :: "json \<Rightarrow> error + json option" where
  "index0 JNull = Inl TypeError"
| "index0 (JArr xs) = Inr (case xs of [] \<Rightarrow> None | x # _ \<Rightarrow> Some x)"
| "index0 (JObj kvs) = Inr (map_of (rev kvs) ''0'')"
| "index0 (JStr s) = Inr (case s of [] \<Rightarrow> None | c # _ \<Rightarrow> Some (JStr [c]))"
| "index0 (JBool b) = Inr None"
| "index0 (JNum n) = Inr None"

text \<open>\<^verbatim>\<open>packet[1]\<close>, in the same way.\<close>

fun index1 :: "json \<Rightarrow> error + json option" where
  "index1 JNull = Inl TypeError"
| "index1 (JArr xs) = Inr (case drop 1 xs of [] \<Rightarrow> None | x # _ \<Rightarrow> Some x)"
| "index1 (JObj kvs) = Inr (map_of (rev kvs) ''1'')"
| "index1 (JStr s) = Inr (case drop 1 s of [] \<Rightarrow> None | c # _ \<Rightarrow> Some (JStr [c]))"
| "index1 (JBool b) = Inr None"
| "index1 (JNum n) = Inr None"

text \<open>
  \<^verbatim>\<open>obj.slice(1)\<close>: an array loses its first element; a string has a
  \<^verbatim>\<open>slice\<close> of its own; every other value has no callable
  \<^verbatim>\<open>slice\<close> and the call throws a TypeError.
\<close>

fun slice1 :: "json \<Rightarrow> error + json" where
  "slice1 (JArr xs) = Inr (JArr (drop 1 xs))"
| "slice1 (JStr s) = Inr (JStr (drop 1 s))"
| "slice1 _ = Inl TypeError"

text \<open>
  String conversion of a parsed value inside a template literal. Only whether
  it throws is modelled: an object that has a member named \<^verbatim>\<open>toString\<close>
  shadows the inherited method with a value that is not callable, the
  inherited \<^verbatim>\<open>valueOf\<close> (or a shadowing member) yields no primitive,
  and the conversion throws a TypeError; an array converts each element that
  is not \<^verbatim>\<open>null\<close> in turn.
\<close>

fun toStringThrows :: "json \<Rightarrow> bool" where
  "toStringThrows (JObj kvs) = (''toString'' \<in> set (map fst kvs))"
| "toStringThrows (JArr xs) = list_ex toStringThrows xs"
| "toStringThrows _ = False"

text \<open>Truthiness of a value in a condition.\<close>

fun truthy :: "json \<Rightarrow> bool" where
  "truthy JNull = False"
| "truthy (JBool b) = b"
| "truthy (JNum n) = (n \<noteq> 0)"
| "truthy (JStr s) = (s \<noteq> [])"
| "truthy (JArr xs) = True"
| "truthy (JObj kvs) = True"

section \<open>Numbers\<close>

text \<open>
  A number of the language is a double: a rational that the 64-bit binary format
  represents, an infinity, or NaN. The sign of zero is left out: no operation of
  the protocol tells the two zeros apart.
\<close>

datatype number = Finite rat | PosInfinity | NegInfinity | NaN

text \<open>
  The binary exponent of a rational: the floor of its logarithm to base 2, and
  - 1022 for all that lies below the normal range.
\<close>

definition exponent :: "rat \<Rightarrow> int" where
  "exponent x = max (bitlen \<lfloor>\<bar>x\<bar> * 2 ^ 1074\<rfloor> - 1075) (- 1022)"

definition roundTiesToEven :: "rat \<Rightarrow> int" where
  "roundTiesToEven y =
     (let f = \<lfloor>y\<rfloor>; d = y - of_int f
      in if d < 1 / 2 then f
         else if 1 / 2 < d then f + 1
         else if even f then f else f + 1)"

text \<open>
  The double nearest to a rational, ties to the even significand of 53 bits; a
  result of magnitude \<open>2^1024\<close> is an infinity.
\<close>

definition double :: "rat \<Rightarrow> number" where
  "double x =
     (let q = 2 powi (exponent x - 52);
          v = of_int (roundTiesToEven (x / q)) * q
      in if 2 ^ 1024 \<le> v then PosInfinity
         else if v \<le> - (2 ^ 1024) then NegInfinity
         else Finite v)"

text \<open>The double nearest to six tenths, the value of the literal \<^verbatim>\<open>0.6\<close>.\<close>

definition c06 :: rat where
  "c06 = 5404319552844595 / 9007199254740992"

text \<open>The operators \<^verbatim>\<open>-\<close>, \<^verbatim>\<open>+\<close>, \<^verbatim>\<open>*\<close> and \<^verbatim>\<open><\<close> on numbers.\<close>

fun number_sub :: "number \<Rightarrow> number \<Rightarrow> number" where
  "number_sub NaN b = NaN"
| "number_sub a NaN = NaN"
| "number_sub (Finite a) (Finite b) = double (a - b)"
| "number_sub (Finite a) PosInfinity = NegInfinity"
| "number_sub (Finite a) NegInfinity = PosInfinity"
| "number_sub PosInfinity PosInfinity = NaN"
| "number_sub PosInfinity b = PosInfinity"
| "number_sub NegInfinity NegInfinity = NaN"
| "number_sub NegInfinity b = NegInfinity"

fun number_add :: "number \<Rightarrow> number \<Rightarrow> number" where
  "number_add NaN b = NaN"
| "number_add a NaN = NaN"
| "number_add (Finite a) (Finite b) = double (a + b)"
| "number_add (Finite a) b = b"
| "number_add PosInfinity NegInfinity = NaN"
| "number_add PosInfinity b = PosInfinity"
| "number_add NegInfinity PosInfinity = NaN"
| "number_add NegInfinity b = NegInfinity"

fun number_mul :: "number \<Rightarrow> number \<Rightarrow> number" where
  "number_mul NaN b = NaN"
| "number_mul a NaN = NaN"
| "number_mul (Finite a) (Finite b) = double (a * b)"
| "number_mul (Finite a) PosInfinity =
     (if a = 0 then NaN else if 0 < a then PosInfinity else NegInfinity)"
| "number_mul (Finite a) NegInfinity =
     (if a = 0 then NaN else if 0 < a then NegInfinity else PosInfinity)"
| "number_mul PosInfinity (Finite b) =
     (if b = 0 then NaN else if 0 < b then PosInfinity else NegInfinity)"
| "number_mul NegInfinity (Finite b) =
     (if b = 0 then NaN else if 0 < b then NegInfinity else PosInfinity)"
| "number_mul PosInfinity PosInfinity = PosInfinity"
| "number_mul PosInfinity NegInfinity = NegInfinity"
| "number_mul NegInfinity PosInfinity = NegInfinity"
| "number_mul NegInfinity NegInfinity = PosInfinity"

fun number_less :: "number \<Rightarrow> number \<Rightarrow> bool" where
  "number_less NaN b = False"
| "number_less a NaN = False"
| "number_less (Finite a) (Finite b) = (a < b)"
| "number_less (Finite a) PosInfinity = True"
| "number_less (Finite a) NegInfinity = False"
| "number_less PosInfinity b = False"
| "number_less NegInfinity NegInfinity = False"
| "number_less NegInfinity b = True"

fun Math_floor :: "number \<Rightarrow> number" where
  "Math_floor (Finite r) = Finite (of_int \<lfloor>r\<rfloor>)"
| "Math_floor x = x"

text \<open>
  The conversion to a 32-bit integer that \<^verbatim>\<open>|\<close> applies: the fraction is
  dropped towards zero, the low 32 bits are read as two's complement; what is
  not finite converts to 0.
\<close>

fun ToInt32 :: "number \<Rightarrow> int" where
  "ToInt32 (Finite r) = sint (word_of_int (if 0 \<le> r then \<lfloor>r\<rfloor> else \<lceil>r\<rceil>) :: 32 word)"
| "ToInt32 x = 0"

text \<open>\<^verbatim>\<open>asInt32 = (num) => num | 0\<close>.\<close>

definition asInt32 :: "number \<Rightarrow> number" where
  "asInt32 num = Finite (of_int (ToInt32 num))"

text \<open>A number inside a message: \<^verbatim>\<open>JSON.stringify\<close> writes what is not finite as null.\<close>

fun number_json :: "number \<Rightarrow> json" where
  "number_json (Finite r) = JNum r"
| "number_json x = JNull"

text \<open>
  The conversions between strings and numbers are parameters: the reading of a
  numeric string and the printing of a finite number.
\<close>

record Coercions =
  StringToNumber :: "string \<Rightarrow> number"
  NumberToString :: "rat \<Rightarrow> string"

text \<open>
  The string of a value: an array joins the strings of its elements with commas,
  an element \<^verbatim>\<open>null\<close> giving the empty string; an object that has a member
  named \<^verbatim>\<open>toString\<close> throws, any other object prints as
  \<^verbatim>\<open>[object Object]\<close>.
\<close>

fun join :: "(error + string) list \<Rightarrow> error + string" where
  "join [] = Inr []"
| "join [a] = a"
| "join (a # b # rest) =
     (case a of
        Inl e \<Rightarrow> Inl e
      | Inr s \<Rightarrow> (case join (b # rest) of Inl e \<Rightarrow> Inl e | Inr t \<Rightarrow> Inr (s @ '','' @ t)))"

fun ToString :: "(rat \<Rightarrow> string) \<Rightarrow> json \<Rightarrow> error + string" where
  "ToString p JNull = Inr ''null''"
| "ToString p (JBool b) = Inr (if b then ''true'' else ''false'')"
| "ToString p (JNum r) = Inr (p r)"
| "ToString p (JStr s) = Inr s"
| "ToString p (JArr xs) = join (map (\<lambda>x. if x = JNull then Inr [] else ToString p x) xs)"
| "ToString p (JObj kvs) =
     (if ''toString'' \<in> set (map fst kvs) then Inl TypeError else Inr ''[object Object]'')"

text \<open>
  The number of a value, as the operator \<^verbatim>\<open>-\<close> takes it: \<open>None\<close> is
  \<^verbatim>\<open>undefined\<close>; an array or an object goes through its string.
\<close>

fun ToNumber :: "Coercions \<Rightarrow> json option \<Rightarrow> error + number" where
  "ToNumber C None = Inr NaN"
| "ToNumber C (Some JNull) = Inr (Finite 0)"
| "ToNumber C (Some (JBool b)) = Inr (Finite (if b then 1 else 0))"
| "ToNumber C (Some (JNum r)) = Inr (double r)"
| "ToNumber C (Some (JStr s)) = Inr (StringToNumber C s)"
| "ToNumber C (Some v) =
     (case ToString (NumberToString C) v of
        Inl e \<Rightarrow> Inl e
      | Inr s \<Rightarrow> Inr (StringToNumber C s))"

section \<open>The transport and the environment\<close>

datatype ReadyState = CONNECTING | OPEN | CLOSING | CLOSED

text \<open>
  The browser's socket: its state and the frames handed to the network so far,
  oldest first.
\<close>

record WebSocket =
  url :: string
  subprotocol :: string
  readyState :: ReadyState
  transmitted :: "string list"

text \<open>
  \<^verbatim>\<open>socket.send\<close> of the WebSocket API: throws while connecting, transmits
  when open, and drops the frame silently once closing or closed.
\<close>

definition WebSocket_send :: "string \<Rightarrow> WebSocket \<Rightarrow> error + WebSocket" where
  "WebSocket_send d ws =
     (case readyState ws of
        CONNECTING \<Rightarrow> Inl InvalidStateError
      | OPEN \<Rightarrow> Inr (ws\<lparr>transmitted := transmitted ws @ [d]\<rparr>)
      | CLOSING \<Rightarrow> Inr ws
      | CLOSED \<Rightarrow> Inr ws)"

text \<open>
  Modelled from the spec: \<^verbatim>\<open>model/Simulation\<close> is not among the sources; the
  protocol only reads its clock, an integral count of milliseconds of local
  simulation time, as a number.
\<close>

record Simulation =
  timeMillis :: int

definition getTimeMillis :: "Simulation \<Rightarrow> number" where
  "getTimeMillis sim = double (of_int (timeMillis sim))"

text \<open>
  Callbacks of the application are opaque: the disconnect callback is the
  initial no-op or a registered function, a packet handler is the protocol's own
  clock-sync handler or a registered function. Each invocation is recorded, in
  order, with its argument; a callback of the application is taken to return
  and to leave its argument as it is. An exception ends a run: the result is
  the error, without the state it leaves behind.
\<close>

datatype VoidFunction = Noop | Callback nat

datatype PacketHandler = OnClockSyncReply | Handler nat

datatype call = EventCall VoidFunction | PacketCall PacketHandler json

datatype console_entry = ConsoleError string | ConsoleWarn json

record MessageEvent =
  data :: string

text \<open>
  The fields of the class, followed by the parts of the environment it acts
  on: the wall clock \<^verbatim>\<open>Date.now()\<close>, the interval timers that are
  running, the console and the record of callback invocations.
\<close>

record Protocol =
  socket :: WebSocket
  packetQueue :: "string list"
  eventHandler :: VoidFunction
  handlers :: "rat \<Rightarrow> PacketHandler list option"
  syncTimer :: nat
  serverTimeDelta :: number
  roundTripTime :: number
  simulation :: "Simulation option"
  date_now :: int
  timerCount :: nat
  intervals :: "(nat \<times> nat) list"
  console :: "console_entry list"
  calls :: "call list"

definition PROTOCOL_VERSION :: string where
  "PROTOCOL_VERSION = ''dotproduct.v1''"

definition CLOCK_SYNC_PERIOD :: nat where
  "CLOCK_SYNC_PERIOD = 2000"

datatype C2SPacketType =
  LOGIN | START_GAME | POSITION | CLOCK_SYNC | PLAYER_DIED | CHAT_MESSAGE | SHIP_CHANGE
  | PRIZE_COLLECTED | SET_PRESENCE | TUTORIAL_COMPLETED | FLAG_CAPTURED

fun C2S :: "C2SPacketType \<Rightarrow> rat" where
  "C2S LOGIN = 1"
| "C2S START_GAME = 2"
| "C2S POSITION = 3"
| "C2S CLOCK_SYNC = 4"
| "C2S PLAYER_DIED = 5"
| "C2S CHAT_MESSAGE = 6"
| "C2S SHIP_CHANGE = 7"
| "C2S PRIZE_COLLECTED = 8"
| "C2S SET_PRESENCE = 9"
| "C2S TUTORIAL_COMPLETED = 10"
| "C2S FLAG_CAPTURED = 11"

datatype S2CPacketType =
  LOGIN_REPLY | PLAYER_ENTERED | PLAYER_LEFT | PLAYER_POSITION | CLOCK_SYNC_REPLY
  | S2C_PLAYER_DIED | S2C_CHAT_MESSAGE | S2C_SHIP_CHANGE | SCORE_UPDATE | PRIZE_SEED_UPDATE
  | S2C_PRIZE_COLLECTED | S2C_SET_PRESENCE | FLAG_UPDATE

fun S2C :: "S2CPacketType \<Rightarrow> rat" where
  "S2C LOGIN_REPLY = 1"
| "S2C PLAYER_ENTERED = 2"
| "S2C PLAYER_LEFT = 3"
| "S2C PLAYER_POSITION = 4"
| "S2C CLOCK_SYNC_REPLY = 5"
| "S2C S2C_PLAYER_DIED = 6"
| "S2C S2C_CHAT_MESSAGE = 7"
| "S2C S2C_SHIP_CHANGE = 8"
| "S2C SCORE_UPDATE = 9"
| "S2C PRIZE_SEED_UPDATE = 10"
| "S2C S2C_PRIZE_COLLECTED = 11"
| "S2C S2C_SET_PRESENCE = 12"
| "S2C FLAG_UPDATE = 13"

text \<open>\<^verbatim>\<open>Date.now()\<close>: the wall clock, an integral number of milliseconds.\<close>

definition Date_now :: "Protocol \<Rightarrow> number" where
  "Date_now st = double (of_int (date_now st))"

text \<open>
  Modelled from the spec: \<^verbatim>\<open>time/Timer\<close> is not among the sources. Starting a
  periodic timer yields a fresh non-zero identifier and keeps the timer running,
  with its period, until it is cancelled; cancelling an identifier that is not
  running does nothing.
\<close>

definition Timer_setInterval :: "nat \<Rightarrow> Protocol \<Rightarrow> nat \<times> Protocol" where
  "Timer_setInterval period st =
     (let i = Suc (timerCount st)
      in (i, st\<lparr>timerCount := i, intervals := intervals st @ [(i, period)]\<rparr>))"

definition Timer_clearInterval :: "nat \<Rightarrow> Protocol \<Rightarrow> Protocol" where
  "Timer_clearInterval i st = st\<lparr>intervals := filter (\<lambda>(j, period). j \<noteq> i) (intervals st)\<rparr>"

section \<open>The protocol\<close>

subsection \<open>Synchronized time\<close>

definition getMillisSinceServerTime :: "Protocol \<Rightarrow> number \<Rightarrow> number" where
  "getMillisSinceServerTime st timestamp =
     (case simulation st of
        None \<Rightarrow> Finite 0
      | Some sim \<Rightarrow>
          (let diff = number_sub timestamp (serverTimeDelta st);
               diff = (if number_less diff (Finite 0) then number_add diff (Finite 0x100000000)
                       else diff);
               diff = number_sub (asInt32 (getTimeMillis sim)) diff;
               diff = (if number_less diff (Finite 0) then number_add diff (Finite 0x100000000)
                       else diff)
           in diff))"

definition getRoundTripTime :: "Protocol \<Rightarrow> number" where
  "getRoundTripTime st = roundTripTime st"

definition remoteTime :: "Protocol \<Rightarrow> number" where
  "remoteTime st =
     (case simulation st of
        Some sim \<Rightarrow> asInt32 (number_add (getTimeMillis sim) (serverTimeDelta st))
      | None \<Rightarrow> Finite 0)"

text \<open>
  The handler of a clock-sync reply. The literal \<^verbatim>\<open>0.6\<close> is the double
  nearest to six tenths. The first field is converted when the round-trip time
  is computed, the second when the delta is.
\<close>

definition onClockSyncReply :: "Coercions \<Rightarrow> json \<Rightarrow> Protocol \<Rightarrow> error + Protocol" where
  "onClockSyncReply C packet st =
     (case index0 packet of
        Inl e \<Rightarrow> Inl e
      | Inr clientTime0 \<Rightarrow>
     (case index1 packet of
        Inl e \<Rightarrow> Inl e
      | Inr serverTime \<Rightarrow>
     (case ToNumber C clientTime0 of
        Inl e \<Rightarrow> Inl e
      | Inr c \<Rightarrow>
          (let rtt = number_sub (asInt32 (Date_now st)) c;
               rtt = (if number_less rtt (Finite 0) then number_add rtt (Finite 0x100000000)
                      else rtt);
               st = st\<lparr>roundTripTime := rtt\<rparr>
           in case ToNumber C serverTime of
                Inl e \<Rightarrow> Inl e
              | Inr s \<Rightarrow>
                  (let st = st\<lparr>serverTimeDelta :=
                              Math_floor (number_sub (number_sub s c)
                                            (number_mul (double (6 / 10)) rtt))\<rparr>
                   in Inr (if number_less (serverTimeDelta st) (Finite 0)
                           then st\<lparr>serverTimeDelta :=
                                    number_add (serverTimeDelta st) (Finite 0x100000000)\<rparr>
                           else st))))))"

subsection \<open>Registration\<close>

definition registerEventHandler :: "VoidFunction \<Rightarrow> Protocol \<Rightarrow> Protocol" where
  "registerEventHandler cb st = st\<lparr>eventHandler := cb\<rparr>"

definition registerPacketHandler :: "rat \<Rightarrow> PacketHandler \<Rightarrow> Protocol \<Rightarrow> Protocol" where
  "registerPacketHandler packetType cb st =
     (let st = (if handlers st packetType = None
                then st\<lparr>handlers := (handlers st)(packetType \<mapsto> [])\<rparr>
                else st)
      in case handlers st packetType of
           None \<Rightarrow> st
         | Some hs \<Rightarrow> st\<lparr>handlers := (handlers st)(packetType \<mapsto> hs @ [cb])\<rparr>)"

definition initializePacketHandlers :: "Protocol \<Rightarrow> Protocol" where
  "initializePacketHandlers st = registerPacketHandler (S2C CLOCK_SYNC_REPLY) OnClockSyncReply st"

text \<open>The constructor: a socket that is connecting, the initial fields, the clock-sync handler.\<close>

definition new_Protocol :: "string \<Rightarrow> int \<Rightarrow> Protocol" where
  "new_Protocol u t =
     initializePacketHandlers
       \<lparr>socket = \<lparr>url = u, subprotocol = PROTOCOL_VERSION, readyState = CONNECTING,
                  transmitted = []\<rparr>,
        packetQueue = [], eventHandler = Noop, handlers = Map.empty, syncTimer = 0,
        serverTimeDelta = Finite 0, roundTripTime = Finite 0, simulation = None,
        date_now = t, timerCount = 0, intervals = [], console = [], calls = []\<rparr>"

subsection \<open>Sending\<close>

text \<open>\<^verbatim>\<open>JSON.stringify\<close> is a parameter of every function that sends.\<close>

definition send :: "(json \<Rightarrow> string) \<Rightarrow> json \<Rightarrow> Protocol \<Rightarrow> error + Protocol" where
  "send stringify dat st =
     (let packet = stringify dat
      in if readyState (socket st) \<noteq> OPEN
         then Inr (st\<lparr>packetQueue := packetQueue st @ [packet]\<rparr>)
         else (case WebSocket_send packet (socket st) of
                 Inl e \<Rightarrow> Inl e
               | Inr ws \<Rightarrow> Inr (st\<lparr>socket := ws\<rparr>)))"

definition login :: "(json \<Rightarrow> string) \<Rightarrow> json \<Rightarrow> Protocol \<Rightarrow> error + Protocol" where
  "login stringify loginData st = send stringify (JArr [JNum (C2S LOGIN), loginData]) st"

definition syncClocks :: "(json \<Rightarrow> string) \<Rightarrow> Protocol \<Rightarrow> error + Protocol" where
  "syncClocks stringify st =
     send stringify (JArr [JNum (C2S CLOCK_SYNC), number_json (asInt32 (Date_now st))]) st"

definition startGame ::
  "(json \<Rightarrow> string) \<Rightarrow> Simulation \<Rightarrow> number \<Rightarrow> Protocol \<Rightarrow> error + Protocol" where
  "startGame stringify sim ship st =
     (let st = st\<lparr>simulation := Some sim\<rparr>
      in case send stringify
                (JArr [JNum (C2S START_GAME), number_json ship,
                       number_json (asInt32 (Date_now st))]) st of
           Inl e \<Rightarrow> Inl e
         | Inr st \<Rightarrow>
             (case Timer_setInterval CLOCK_SYNC_PERIOD st of (i, st) \<Rightarrow> Inr (st\<lparr>syncTimer := i\<rparr>)))"

record Vector =
  vector_x :: number
  vector_y :: number

definition positionPacket ::
  "Protocol \<Rightarrow> number \<Rightarrow> Vector \<Rightarrow> Vector \<Rightarrow> bool \<Rightarrow> json option \<Rightarrow> json list" where
  "positionPacket st direction position velocity isSafe weaponData =
     (let packet = [JNum (C2S POSITION), number_json (remoteTime st), number_json direction,
                    number_json (vector_x position), number_json (vector_y position),
                    number_json (vector_x velocity), number_json (vector_y velocity),
                    JBool isSafe]
      in case weaponData of
           None \<Rightarrow> packet
         | Some w \<Rightarrow> if truthy w then packet @ [w] else packet)"

definition sendPosition ::
  "(json \<Rightarrow> string) \<Rightarrow> number \<Rightarrow> Vector \<Rightarrow> Vector \<Rightarrow> bool \<Rightarrow> json option \<Rightarrow> Protocol
     \<Rightarrow> error + Protocol" where
  "sendPosition stringify direction position velocity isSafe weaponData st =
     send stringify (JArr (positionPacket st direction position velocity isSafe weaponData)) st"

definition sendFlagCaptured :: "(json \<Rightarrow> string) \<Rightarrow> number \<Rightarrow> Protocol \<Rightarrow> error + Protocol" where
  "sendFlagCaptured stringify ident st =
     send stringify
       (JArr [JNum (C2S FLAG_CAPTURED), number_json (remoteTime st), number_json ident]) st"

subsection \<open>Socket events\<close>

fun forEach_send :: "string list \<Rightarrow> WebSocket \<Rightarrow> error + WebSocket" where
  "forEach_send [] ws = Inr ws"
| "forEach_send (packet # rest) ws =
     (case WebSocket_send packet ws of
        Inl e \<Rightarrow> Inl e
      | Inr ws' \<Rightarrow> forEach_send rest ws')"

definition onOpen :: "Protocol \<Rightarrow> error + Protocol" where
  "onOpen st =
     (case forEach_send (packetQueue st) (socket st) of
        Inl e \<Rightarrow> Inl e
      | Inr ws \<Rightarrow> Inr (st\<lparr>socket := ws, packetQueue := []\<rparr>))"

definition onClose :: "Protocol \<Rightarrow> Protocol" where
  "onClose st =
     (let st = Timer_clearInterval (syncTimer st) st;
          st = st\<lparr>syncTimer := 0\<rparr>;
          st = st\<lparr>packetQueue := []\<rparr>
      in st\<lparr>calls := calls st @ [EventCall (eventHandler st)]\<rparr>)"

text \<open>
  Calling a packet handler: the call is recorded; the protocol's own handler
  then runs, a handler of the application returns.
\<close>

definition invoke :: "Coercions \<Rightarrow> PacketHandler \<Rightarrow> json \<Rightarrow> Protocol \<Rightarrow> error + Protocol" where
  "invoke C handler packet st =
     (let st = st\<lparr>calls := calls st @ [PacketCall handler packet]\<rparr>
      in case handler of
           OnClockSyncReply \<Rightarrow> onClockSyncReply C packet st
         | Handler n \<Rightarrow> Inr st)"

fun forEach_handler ::
  "Coercions \<Rightarrow> PacketHandler list \<Rightarrow> json \<Rightarrow> Protocol \<Rightarrow> error + Protocol" where
  "forEach_handler C [] packet st = Inr st"
| "forEach_handler C (handler # rest) packet st =
     (case invoke C handler packet st of
        Inl e \<Rightarrow> Inl e
      | Inr st' \<Rightarrow> forEach_handler C rest packet st')"

text \<open>\<^verbatim>\<open>handlers.get(obj[0])\<close>: the keys of the map are numbers, so only a number finds an entry.\<close>

fun handlers_get :: "(rat \<Rightarrow> PacketHandler list option) \<Rightarrow> json option \<Rightarrow> PacketHandler list option" where
  "handlers_get m (Some (JNum n)) = m n"
| "handlers_get m _ = None"

text \<open>\<^verbatim>\<open>JSON.parse\<close> is a parameter: \<open>None\<close> when it throws.\<close>

definition onMessage ::
  "(string \<Rightarrow> json option) \<Rightarrow> Coercions \<Rightarrow> MessageEvent \<Rightarrow> Protocol \<Rightarrow> error + Protocol" where
  "onMessage parse C event st =
     (case parse (data event) of
        None \<Rightarrow> Inr (st\<lparr>console := console st @ [ConsoleError (data event)]\<rparr>)
      | Some obj \<Rightarrow>
          (case index0 obj of
             Inl e \<Rightarrow> Inl e
           | Inr tag \<Rightarrow>
               (case handlers_get (handlers st) tag of
                  Some packetHandlers \<Rightarrow>
                    (case slice1 obj of
                       Inl e \<Rightarrow> Inl e
                     | Inr slicedObj \<Rightarrow> forEach_handler C packetHandlers slicedObj st)
                | None \<Rightarrow>
                    if toStringThrows obj then Inl TypeError
                    else Inr (st\<lparr>console := console st @ [ConsoleWarn obj]\<rparr>))))"

text \<open>
  The listeners the constructor attaches: \<^verbatim>\<open>open\<close> runs \<open>onOpen\<close>, both
  \<^verbatim>\<open>error\<close> and \<^verbatim>\<open>close\<close> run \<open>onClose\<close>, \<^verbatim>\<open>message\<close> runs
  \<open>onMessage\<close>. The socket is open when \<^verbatim>\<open>open\<close> is delivered and closed
  when \<^verbatim>\<open>error\<close> or \<^verbatim>\<open>close\<close> is.
\<close>

datatype SocketEvent = EvOpen | EvError | EvClose | EvMessage MessageEvent

definition setReadyState :: "ReadyState \<Rightarrow> Protocol \<Rightarrow> Protocol" where
  "setReadyState r st = st\<lparr>socket := (socket st)\<lparr>readyState := r\<rparr>\<rparr>"

fun dispatchEvent ::
  "(string \<Rightarrow> json option) \<Rightarrow> Coercions \<Rightarrow> SocketEvent \<Rightarrow> Protocol \<Rightarrow> error + Protocol" where
  "dispatchEvent parse C EvOpen st = onOpen (setReadyState OPEN st)"
| "dispatchEvent parse C EvError st = Inr (onClose (setReadyState CLOSED st))"
| "dispatchEvent parse C EvClose st = Inr (onClose (setReadyState CLOSED st))"
| "dispatchEvent parse C (EvMessage event) st = onMessage parse C event st"

text \<open>
  A timer that fires: the protocol gives \<open>syncClocks\<close> to every timer it starts, and a
  timer that is not running does not fire.
\<close>

definition Timer_fire :: "(json \<Rightarrow> string) \<Rightarrow> nat \<Rightarrow> Protocol \<Rightarrow> error + Protocol" where
  "Timer_fire stringify i st =
     (if i \<in> set (map fst (intervals st)) then syncClocks stringify st else Inr st)"

text \<open>A sequence of operations, stopping at the first that throws.\<close>

fun run :: "('s \<Rightarrow> error + 's) list \<Rightarrow> 's \<Rightarrow> error + 's" where
  "run [] st = Inr st"
| "run (f # fs) st = (case f st of Inl e \<Rightarrow> Inl e | Inr st' \<Rightarrow> run fs st')"

section \<open>Rounding to a double\<close>


lemma exponent_bounds:
  assumes "2 powi (- 1022) \<le> \<bar>x\<bar>"
  shows "2 powi (exponent x) \<le> \<bar>x\<bar>" and "\<bar>x\<bar> < 2 powi (exponent x + 1)"
proof -
  define N where "N = \<lfloor>\<bar>x\<bar> * 2 ^ 1074\<rfloor>"
  define b where "b = bitlen N"
  have s: "(2::rat) powi (- 1022) * 2 ^ 1074 = 2 ^ 52"
    by (simp add: power_int_minus_divide)
  have "(2::rat) ^ 52 \<le> \<bar>x\<bar> * 2 ^ 1074"
    using assms mult_right_mono [of "2 powi (- 1022)" "\<bar>x\<bar>" "2 ^ 1074 :: rat"] s by simp
  then have "of_int (2 ^ 52) \<le> \<bar>x\<bar> * 2 ^ 1074"
    by simp
  then have N52: "2 ^ 52 \<le> N"
    unfolding N_def by (subst le_floor_iff) simp
  then have Npos: "0 < N"
    by simp
  from bitlen_bounds [OF Npos] have lo: "2 ^ nat (b - 1) \<le> N" and hi: "N < 2 ^ nat b"
    by (simp_all add: b_def)
  have b53: "53 \<le> b"
    using N52 Npos by (simp add: b_def bitlen_ge_iff_power)
  then have e: "exponent x = b - 1075"
    by (simp add: exponent_def N_def b_def)
  have Nle: "of_int N \<le> \<bar>x\<bar> * 2 ^ 1074" and Ngt: "\<bar>x\<bar> * 2 ^ 1074 < of_int N + 1"
    unfolding N_def by linarith+
  have p1: "(2::rat) powi (b - 1075) = 2 ^ nat (b - 1) / 2 ^ 1074"
    using power_int_diff [of "2::rat" "b - 1" 1074] b53 by (simp add: power_int_nonneg_exp)
  have p2: "(2::rat) powi (b - 1075 + 1) = 2 ^ nat b / 2 ^ 1074"
    using power_int_diff [of "2::rat" b 1074] b53 by (simp add: power_int_nonneg_exp)
  have "(2::rat) ^ nat (b - 1) \<le> of_int N"
    using lo by (metis of_int_le_iff of_int_numeral of_int_power)
  then have "(2::rat) ^ nat (b - 1) \<le> \<bar>x\<bar> * 2 ^ 1074"
    using Nle by linarith
  then show "2 powi (exponent x) \<le> \<bar>x\<bar>"
    unfolding e p1 by (simp add: divide_le_eq)
  have "N + 1 \<le> 2 ^ nat b"
    using hi by simp
  then have "(of_int (N + 1) :: rat) \<le> of_int (2 ^ nat b)"
    by (rule of_int_le_iff [THEN iffD2])
  then have "(of_int N :: rat) + 1 \<le> 2 ^ nat b"
    by simp
  then have "\<bar>x\<bar> * 2 ^ 1074 < 2 ^ nat b"
    using Ngt by linarith
  then show "\<bar>x\<bar> < 2 powi (exponent x + 1)"
    unfolding e p2 by (simp add: less_divide_eq)
qed


lemma powi_less_imp: "(2::rat) powi m < 2 powi n \<Longrightarrow> m < n"
proof (rule ccontr)
  assume a: "2 powi m < (2::rat) powi n" and "\<not> m < n"
  then have "n \<le> m" by simp
  then have "(2::rat) powi n \<le> 2 powi m"
    by (intro power_int_increasing) simp_all
  with a show False by simp
qed

lemma exponent_unique:
  assumes "- 1022 \<le> k" and "2 powi k \<le> \<bar>x\<bar>" and "\<bar>x\<bar> < 2 powi (k + 1)"
  shows "exponent x = k"
proof -
  have "(2::rat) powi (- 1022) \<le> 2 powi k"
    using assms(1) by (intro power_int_increasing) simp_all
  then have m: "2 powi (- 1022) \<le> \<bar>x\<bar>"
    using assms(2) by linarith
  note b = exponent_bounds [OF m]
  have "(2::rat) powi (exponent x) < 2 powi (k + 1)"
    using b(1) assms(3) by linarith
  then have 1: "exponent x < k + 1"
    by (rule powi_less_imp)
  have "(2::rat) powi k < 2 powi (exponent x + 1)"
    using b(2) assms(2) by linarith
  then have 2: "k < exponent x + 1"
    by (rule powi_less_imp)
  from 1 2 show ?thesis by simp
qed

lemma roundTiesToEven_error: "\<bar>of_int (roundTiesToEven y) - y\<bar> \<le> 1 / 2"
proof -
  have "of_int \<lfloor>y\<rfloor> \<le> y" and "y < of_int \<lfloor>y\<rfloor> + 1"
    by linarith+
  then show ?thesis
    unfolding roundTiesToEven_def Let_def by (auto simp add: abs_le_iff)
qed

lemma roundTiesToEven_int: "roundTiesToEven (of_int m) = m"
  by (simp add: roundTiesToEven_def)

lemma roundTiesToEven_below:
  assumes "0 \<le> t" and "t < 1 / 2"
  shows "roundTiesToEven (of_int m - t) = m"
proof (cases "t = 0")
  case True
  then show ?thesis by (simp add: roundTiesToEven_int)
next
  case False
  with assms have f: "\<lfloor>of_int m - t\<rfloor> = m - 1"
    by (intro floor_unique) simp_all
  show ?thesis
    using assms False by (simp add: roundTiesToEven_def Let_def f)
qed


lemma double_zero: "double 0 = Finite 0"
  by (simp add: double_def Let_def roundTiesToEven_def)

lemma double_int:
  assumes "\<bar>n\<bar> < 2 ^ 53"
  shows "double (of_int n) = Finite (of_int n)"
proof (cases "n = 0")
  case True
  then show ?thesis by (simp add: double_zero)
next
  case False
  define x :: rat where "x = of_int n"
  define e where "e = exponent x"
  define k where "k = nat (52 - e)"
  have x1: "1 \<le> \<bar>x\<bar>"
    using False by (simp add: x_def flip: of_int_abs)
  have "(2::rat) powi (- 1022) \<le> 1"
    by (simp add: power_int_minus_divide)
  with x1 have m: "2 powi (- 1022) \<le> \<bar>x\<bar>"
    by linarith
  have "(of_int \<bar>n\<bar> :: rat) < of_int (2 ^ 53)"
    using assms by (simp only: of_int_less_iff)
  then have "\<bar>x\<bar> < of_int (2 ^ 53)"
    by (simp add: x_def)
  then have "\<bar>x\<bar> < 2 powi 53"
    by simp
  with exponent_bounds(1) [OF m] have "(2::rat) powi e < 2 powi 53"
    unfolding e_def by linarith
  then have e53: "e < 53"
    by (rule powi_less_imp)
  then have ek: "e - 52 = - int k"
    by (simp add: k_def)
  have q: "(2::rat) powi (e - 52) = 1 / 2 ^ k"
    unfolding ek by (simp add: power_int_minus_divide)
  have "x / (1 / 2 ^ k) = of_int (n * 2 ^ k)"
    by (simp add: x_def)
  then have r: "roundTiesToEven (x / (1 / 2 ^ k)) = n * 2 ^ k"
    by (simp only: roundTiesToEven_int)
  have v: "of_int (n * 2 ^ k) * (1 / 2 ^ k) = x"
    by (simp add: x_def)
  have "\<bar>x\<bar> < 2 ^ 1024"
    using \<open>\<bar>x\<bar> < of_int (2 ^ 53)\<close> by simp
  then have "\<not> 2 ^ 1024 \<le> x" and "\<not> x \<le> - (2 ^ 1024)"
    by linarith+
  then have "double x = Finite x"
    unfolding double_def Let_def e_def [symmetric] q r v by simp
  then show ?thesis
    by (simp add: x_def)
qed

lemma double_error:
  assumes "2 powi (- 1022) \<le> \<bar>x\<bar>" and "\<bar>x\<bar> < 2 ^ 1023"
  shows "\<exists>v. double x = Finite v \<and> \<bar>v - x\<bar> \<le> \<bar>x\<bar> / 2 ^ 53"
proof -
  define e where "e = exponent x"
  define q :: rat where "q = 2 powi (e - 52)"
  define m where "m = roundTiesToEven (x / q)"
  define v where "v = of_int m * q"
  have q0: "0 < q"
    by (simp add: q_def)
  have "\<bar>of_int m - x / q\<bar> \<le> 1 / 2"
    unfolding m_def by (rule roundTiesToEven_error)
  then have "\<bar>of_int m - x / q\<bar> * q \<le> 1 / 2 * q"
    using q0 by (intro mult_right_mono) simp_all
  moreover have "\<bar>of_int m - x / q\<bar> * q = \<bar>v - x\<bar>"
  proof -
    have "\<bar>of_int m - x / q\<bar> * q = \<bar>(of_int m - x / q) * q\<bar>"
      using q0 by (simp add: abs_mult)
    also have "(of_int m - x / q) * q = v - x"
      using q0 by (simp add: v_def field_simps)
    finally show ?thesis .
  qed
  ultimately have d: "\<bar>v - x\<bar> \<le> q / 2"
    by simp
  have "q = 2 powi e / 2 powi 52"
    unfolding q_def by (rule power_int_diff) simp
  then have qe: "q / 2 = 2 powi e / 2 ^ 53"
    by simp
  have "2 powi e \<le> \<bar>x\<bar>"
    unfolding e_def using assms(1) by (rule exponent_bounds)
  then have "q / 2 \<le> \<bar>x\<bar> / 2 ^ 53"
    unfolding qe by (simp add: divide_right_mono)
  with d have err: "\<bar>v - x\<bar> \<le> \<bar>x\<bar> / 2 ^ 53"
    by linarith
  have "\<bar>x\<bar> / 2 ^ 53 \<le> \<bar>x\<bar>"
    by (simp add: field_simps)
  with err have "\<bar>v\<bar> \<le> 2 * \<bar>x\<bar>"
    by linarith
  with assms(2) have "\<bar>v\<bar> < 2 ^ 1024"
    by simp
  then have "\<not> 2 ^ 1024 \<le> v" and "\<not> v \<le> - (2 ^ 1024)"
    by linarith+
  then have "double x = Finite v"
    unfolding double_def Let_def e_def [symmetric] q_def [symmetric] m_def [symmetric]
      v_def [symmetric] by simp
  with err show ?thesis by blast
qed

lemma roundTiesToEven_above:
  assumes "0 \<le> t" and "t < 1 / 2"
  shows "roundTiesToEven (of_int m + t) = m"
proof -
  from assms have f: "\<lfloor>of_int m + t\<rfloor> = m"
    by (intro floor_unique) simp_all
  show ?thesis
    using assms by (simp add: roundTiesToEven_def Let_def f)
qed

lemma double_06: "double (6 / 10) = Finite c06"
proof -
  have e: "exponent (6 / 10) = - 1"
    by (rule exponent_unique) (simp_all add: power_int_minus_divide)
  have "(6 / 10 :: rat) / 2 powi (- 1 - 52) = of_int 5404319552844595 + 1 / 5"
    by (simp add: power_int_minus_divide)
  then have r: "roundTiesToEven ((6 / 10 :: rat) / 2 powi (- 1 - 52)) = 5404319552844595"
    by (simp only: roundTiesToEven_above [of "1 / 5"])
  show ?thesis
    unfolding double_def Let_def e r
    by (simp add: power_int_minus_divide c06_def)
qed


lemma rat_of_int_lt_pow: "n < 2 ^ k \<Longrightarrow> (of_int n :: rat) < 2 ^ k"
proof -
  assume "n < 2 ^ k"
  then have "(of_int n :: rat) < of_int (2 ^ k)"
    by (simp only: of_int_less_iff)
  then show ?thesis by simp
qed

lemma rat_of_int_abs_lt_pow: "\<bar>n\<bar> < 2 ^ k \<Longrightarrow> \<bar>of_int n :: rat\<bar> < 2 ^ k"
  using rat_of_int_lt_pow [of "\<bar>n\<bar>" k] by simp

lemma rat_of_int_ge1: "0 < n \<Longrightarrow> (1::rat) \<le> of_int n"
proof -
  assume "0 < n"
  then have "1 \<le> n" by simp
  then have "(of_int 1 :: rat) \<le> of_int n"
    by (simp only: of_int_le_iff)
  then show ?thesis by simp
qed

lemma pw:
  "(2::rat) ^ 17 = 131072" "(2::rat) ^ 20 = 1048576" "(2::rat) ^ 21 = 2097152"
  "(2::rat) ^ 34 = 17179869184" "(2::rat) ^ 35 = 34359738368" "(2::rat) ^ 36 = 68719476736"
  by simp_all

lemma mul_06_exact:
  assumes "0 < k" and "k < 2 ^ 32"
  shows "double (c06 * of_int (5 * k)) = Finite (of_int (3 * k))"
proof -
  define x :: rat where "x = c06 * of_int (5 * k)"
  define e where "e = exponent x"
  define P :: rat where "P = 2 powi e"
  define j where "j = nat (52 - e)"
  have k1: "(1::rat) \<le> of_int k" and k32: "(of_int k :: rat) < 2 ^ 32"
    using assms by (simp_all add: rat_of_int_ge1 rat_of_int_lt_pow)
  have x: "x = 3 * of_int k - of_int k / 2 ^ 53"
    by (simp add: x_def c06_def field_simps)
  have xlo: "2 * of_int k \<le> x" and xhi: "x < 3 * of_int k"
    using k1 unfolding x by (simp_all add: field_simps)
  have xabs: "\<bar>x\<bar> = x"
    using xlo k1 by simp
  have "(2::rat) powi (- 1022) \<le> 1"
    by (simp add: power_int_minus_divide)
  then have m: "2 powi (- 1022) \<le> \<bar>x\<bar>"
    using xlo k1 xabs by linarith
  have Plo: "P \<le> x" and Phi: "x < P * 2"
    using exponent_bounds [OF m] by (simp_all add: P_def e_def xabs power_int_add_1)
  have kP: "of_int k < P"
    using Phi xlo by linarith
  have "(2::rat) powi 1 < 2 powi (e + 1)"
    using Phi xlo k1 by (simp add: P_def power_int_add_1)
  then have e1: "0 < e"
    using powi_less_imp by fastforce
  have "P < 2 powi 53"
    using Plo xhi k32 by simp
  then have e53: "e < 53"
    unfolding P_def by (rule powi_less_imp)
  have ej: "e - 52 = - int j"
    using e53 by (simp add: j_def)
  have q: "(2::rat) powi (e - 52) = 1 / 2 ^ j"
    unfolding ej by (simp add: power_int_minus_divide)
  have "int j + e = 52"
    using e53 by (simp add: j_def)
  then have "(2::rat) powi (int j + e) = 2 ^ 52"
    by simp
  then have Pj: "2 ^ j * P = 2 ^ 52"
    unfolding P_def by (simp add: power_int_add)
  have P0: "0 < P"
    by (simp add: P_def)
  have "x / (1 / 2 ^ j) = of_int (3 * k * 2 ^ j) - of_int k / (2 * P)"
  proof -
    have "of_int k * 2 ^ j / 2 ^ 53 = of_int k * (2 ^ j * P) / (2 ^ 53 * P)"
      using P0 by simp
    also have "\<dots> = of_int k / (2 * P)"
      unfolding Pj by simp
    finally show ?thesis
      unfolding x by (simp add: field_simps)
  qed
  moreover have "0 \<le> of_int k / (2 * P)" and "of_int k / (2 * P) < 1 / 2"
    using kP P0 k1 by (simp_all add: field_simps)
  ultimately have r: "roundTiesToEven (x / (1 / 2 ^ j)) = 3 * k * 2 ^ j"
    by (simp only: roundTiesToEven_below)
  have v: "of_int (3 * k * 2 ^ j) * (1 / 2 ^ j) = (of_int (3 * k) :: rat)"
    by simp
  have "(of_int (3 * k) :: rat) < 2 ^ 1024"
    using k32 by simp
  moreover have "(0::rat) \<le> of_int (3 * k)"
    using k1 by simp
  ultimately have "\<not> 2 ^ 1024 \<le> (of_int (3 * k) :: rat)"
    and "\<not> (of_int (3 * k) :: rat) \<le> - (2 ^ 1024)"
    by linarith+
  then have "double x = Finite (of_int (3 * k))"
    unfolding double_def Let_def e_def [symmetric] q r v by simp
  then show ?thesis
    by (simp only: x_def)
qed

lemma mul_06_error:
  assumes "0 < r" and "r < 2 ^ 32"
  shows "\<exists>v. double (c06 * of_int r) = Finite v \<and> \<bar>v - 3 * of_int r / 5\<bar> \<le> 1 / 2 ^ 20"
proof -
  define x :: rat where "x = c06 * of_int r"
  have r1: "(1::rat) \<le> of_int r" and r32: "(of_int r :: rat) < 2 ^ 32"
    using assms by (simp_all add: rat_of_int_ge1 rat_of_int_lt_pow)
  have x: "x = 3 * of_int r / 5 - of_int r / (5 * 2 ^ 53)"
    by (simp add: x_def c06_def field_simps)
  have xlo: "1 / 2 \<le> x" and xhi: "x < 2 ^ 32"
    using r1 r32 unfolding x by (simp_all add: field_simps)
  have xabs: "\<bar>x\<bar> = x"
    using xlo by simp
  have "(2::rat) powi (- 1022) \<le> 1 / 2"
    by (simp add: power_int_minus_divide)
  then have m: "2 powi (- 1022) \<le> \<bar>x\<bar>"
    using xlo xabs by linarith
  have "\<bar>x\<bar> < 2 ^ 1023"
    using xhi xabs by simp
  from double_error [OF m this] obtain v where
    v: "double x = Finite v" and err: "\<bar>v - x\<bar> \<le> x / 2 ^ 53"
    unfolding xabs by blast
  have "x / 2 ^ 53 \<le> 1 / 2 ^ 21"
    using xhi by (simp add: field_simps)
  moreover have "\<bar>x - 3 * of_int r / 5\<bar> \<le> 1 / 2 ^ 21"
    using r1 r32 unfolding x by (simp add: field_simps)
  ultimately have "\<bar>v - 3 * of_int r / 5\<bar> \<le> 1 / 2 ^ 20"
    using err unfolding pw by linarith
  with v show ?thesis
    unfolding x_def by blast
qed

lemma sub_floor:
  assumes "\<bar>D\<bar> < 2 ^ 34" and "0 < r" and "r < 2 ^ 32" and "\<not> 5 dvd r"
    and "\<bar>v - 3 * of_int r / 5\<bar> \<le> 1 / 2 ^ 20"
  shows "\<exists>u. double (of_int D - v) = Finite u \<and> \<lfloor>u\<rfloor> = D - (3 * r + 4) div 5"
proof -
  define a where "a = (3 * r) div 5"
  define f where "f = (3 * r) mod 5"
  define j where "j = D - a - 1"
  define w :: rat where "w = of_int D - v"
  have "\<not> 5 dvd 3 * r"
    using assms(4) by presburger
  then have f: "1 \<le> f" "f \<le> 4"
    unfolding f_def by presburger+
  have r3: "3 * r = 5 * a + f"
    by (simp add: a_def f_def)
  have j: "j = D - (3 * r + 4) div 5"
    using f r3 unfolding j_def by presburger
  have "(of_int (3 * r) :: rat) = of_int (5 * a + f)"
    by (simp only: r3)
  then have q: "3 * of_int r / 5 = (of_int a :: rat) + of_int f / 5"
    by simp
  have fl: "(1::rat) \<le> of_int f"
    using f(1) by (simp add: rat_of_int_ge1)
  have "(of_int f :: rat) \<le> of_int 4"
    using f(2) by (simp only: of_int_le_iff)
  then have fh: "(of_int f :: rat) \<le> 4"
    by simp
  have wj: "w = of_int j + (1 - of_int f / 5) - (v - 3 * of_int r / 5)"
    by (simp add: w_def j_def q)
  have wlo: "of_int j + 1 / 5 - 1 / 2 ^ 20 \<le> w" and whi: "w \<le> of_int j + 4 / 5 + 1 / 2 ^ 20"
    using assms(5) fl fh unfolding wj pw by linarith+
  have D34: "\<bar>of_int D :: rat\<bar> < 2 ^ 34"
    using assms(1) by (rule rat_of_int_abs_lt_pow)
  have ab: "0 \<le> a" "a < 2 ^ 32"
    using assms(2,3) unfolding a_def by simp_all
  have jb: "\<bar>of_int j :: rat\<bar> < 2 ^ 35"
  proof -
    have "\<bar>j\<bar> < 2 ^ 35"
      using assms(1) ab unfolding j_def by simp
    then show ?thesis
      by (rule rat_of_int_abs_lt_pow)
  qed
  have wabs: "1 / 8 \<le> \<bar>w\<bar>"
  proof (cases "0 \<le> j")
    case True
    then have "(0::rat) \<le> of_int j" by simp
    with wlo show ?thesis unfolding pw by linarith
  next
    case False
    then have "j \<le> - 1" by simp
    then have "(of_int j :: rat) \<le> of_int (- 1)"
      by (simp only: of_int_le_iff)
    with whi show ?thesis unfolding pw by linarith
  qed
  have "(2::rat) powi (- 1022) \<le> 1 / 8"
    by (simp add: power_int_minus_divide)
  with wabs have m: "2 powi (- 1022) \<le> \<bar>w\<bar>"
    by linarith
  have w36: "\<bar>w\<bar> < 2 ^ 36"
    using wlo whi jb unfolding pw by linarith
  then have "\<bar>w\<bar> < 2 ^ 1023"
    by simp
  from double_error [OF m this] obtain u where
    u: "double w = Finite u" and err: "\<bar>u - w\<bar> \<le> \<bar>w\<bar> / 2 ^ 53"
    by blast
  have "\<bar>w\<bar> / 2 ^ 53 \<le> 1 / 2 ^ 17"
    using w36 by (simp add: field_simps)
  with err have e2: "\<bar>u - w\<bar> \<le> 1 / 2 ^ 17"
    by linarith
  have "of_int j \<le> u" and "u < of_int j + 1"
    using e2 wlo whi unfolding pw by linarith+
  then have "\<lfloor>u\<rfloor> = j"
    by (intro floor_unique)
  with u j show ?thesis
    unfolding w_def by blast
qed






section \<open>Arithmetic on integral numbers\<close>

lemma ToInt32_int: "ToInt32 (Finite (of_int n)) = (n + 2 ^ 31) mod 2 ^ 32 - 2 ^ 31"
  by (simp add: sint_sbintrunc' signed_take_bit_eq_take_bit_shift take_bit_eq_mod)

lemma ToInt32_range: "- (2 ^ 31) \<le> ToInt32 x \<and> ToInt32 x < 2 ^ 31"
proof (cases x)
  case (Finite r)
  have "- (2 ^ 31) \<le> sint (w :: 32 word) \<and> sint w < 2 ^ 31" for w
    using sint_ge [of w] sint_lt [of w] by simp
  then show ?thesis
    unfolding Finite ToInt32.simps by blast
qed simp_all

lemma asInt32_int: "asInt32 (Finite (of_int n)) = Finite (of_int ((n + 2 ^ 31) mod 2 ^ 32 - 2 ^ 31))"
  by (simp only: asInt32_def ToInt32_int)

lemma number_sub_int:
  "\<bar>a - b\<bar> < 2 ^ 53 \<Longrightarrow>
     number_sub (Finite (of_int a)) (Finite (of_int b)) = Finite (of_int (a - b))"
  using double_int [of "a - b"] by simp

lemma number_add_int:
  "\<bar>a + b\<bar> < 2 ^ 53 \<Longrightarrow>
     number_add (Finite (of_int a)) (Finite (of_int b)) = Finite (of_int (a + b))"
  using double_int [of "a + b"] by simp

lemma number_less_int: "number_less (Finite (of_int a)) (Finite 0) = (a < 0)"
  by simp

lemma correct_int:
  assumes "\<bar>a\<bar> < 2 ^ 53"
  shows "(if number_less (Finite (of_int a)) (Finite 0)
          then number_add (Finite (of_int a)) (Finite 0x100000000)
          else Finite (of_int a))
         = Finite (of_int (if a < 0 then a + 2 ^ 32 else a))"
proof -
  show ?thesis
  proof (cases "a < 0")
    case True
    with assms have "\<bar>a + 4294967296\<bar> < 2 ^ 53"
      by simp
    from number_add_int [OF this] True show ?thesis
      by (simp add: number_less_int)
  next
    case False
    then show ?thesis
      by (simp add: number_less_int)
  qed
qed

lemma delta_floor:
  assumes "\<bar>D\<bar> < 2 ^ 34" and "0 \<le> r" and "r < 2 ^ 32"
  shows "Math_floor (number_sub (Finite (of_int D))
           (number_mul (double (6 / 10)) (Finite (of_int r))))
         = Finite (of_int (D - (3 * r + 4) div 5))"
proof -
  have D53: "\<bar>D\<bar> < 2 ^ 53"
    using assms(1) by simp
  consider "r = 0" | "0 < r" "5 dvd r" | "0 < r" "\<not> 5 dvd r"
    using assms(2) by linarith
  then show ?thesis
  proof cases
    case 1
    have "number_mul (double (6 / 10)) (Finite (of_int r)) = Finite (of_int 0)"
      unfolding 1 double_06 by (simp add: double_zero)
    moreover have "\<bar>D - 0\<bar> < 2 ^ 53"
      using D53 by simp
    ultimately show ?thesis
      using number_sub_int [of D 0] unfolding 1 by simp
  next
    case 2
    then obtain k where k: "r = 5 * k"
      by (auto simp add: dvd_def)
    with 2 assms(3) have kb: "0 < k" "k < 2 ^ 32"
      by simp_all
    have m: "number_mul (double (6 / 10)) (Finite (of_int r)) = Finite (of_int (3 * k))"
      unfolding k double_06 number_mul.simps by (rule mul_06_exact [OF kb])
    have "\<bar>D - 3 * k\<bar> < 2 ^ 53"
      using assms(1) kb by simp
    from number_sub_int [OF this] have
      "number_sub (Finite (of_int D)) (Finite (of_int (3 * k))) = Finite (of_int (D - 3 * k))" .
    moreover have "(3 * r + 4) div 5 = 3 * k"
      unfolding k by simp
    ultimately show ?thesis
      unfolding m by simp
  next
    case 3
    from mul_06_error [OF 3(1) assms(3)] obtain v where
      v: "double (c06 * of_int r) = Finite v" and e: "\<bar>v - 3 * of_int r / 5\<bar> \<le> 1 / 2 ^ 20"
      by blast
    from sub_floor [OF assms(1) 3(1) assms(3) 3(2) e] obtain u where
      u: "double (of_int D - v) = Finite u" and f: "\<lfloor>u\<rfloor> = D - (3 * r + 4) div 5"
      by blast
    show ?thesis
      unfolding double_06 number_mul.simps v number_sub.simps u Math_floor.simps f ..
  qed
qed

section \<open>Clock arithmetic\<close>

lemma wrap_range: "- (2 ^ 31) \<le> (n + 2 ^ 31) mod 2 ^ 32 - 2 ^ 31 \<and> (n + 2 ^ 31) mod 2 ^ 32 - 2 ^ 31 < (2 ^ 31 :: int)"
  by simp

lemma wrap_cong: "((n + 2 ^ 31) mod 2 ^ 32 - 2 ^ 31) mod 2 ^ 32 = n mod (2 ^ 32 :: int)"
  by (simp add: mod_diff_left_eq)

lemma correct_mod: "(if x < 0 then x + 2 ^ 32 else x) mod 2 ^ 32 = x mod (2 ^ 32 :: int)"
  by simp

lemma Date_now_int: "\<bar>date_now st\<bar> < 2 ^ 53 \<Longrightarrow> Date_now st = Finite (of_int (date_now st))"
  unfolding Date_now_def by (rule double_int)

lemma getTimeMillis_int:
  "\<bar>timeMillis sim\<bar> < 2 ^ 53 \<Longrightarrow> getTimeMillis sim = Finite (of_int (timeMillis sim))"
  unfolding getTimeMillis_def by (rule double_int)

lemma onClockSyncReply_int32:
  assumes now: "\<bar>date_now st\<bar> < 2 ^ 53"
    and t0: "- (2 ^ 31) \<le> t0" "t0 < 2 ^ 31"
    and s: "- (2 ^ 31) \<le> serverTime" "serverTime < 2 ^ 32"
  shows "onClockSyncReply C (JArr (JNum (of_int t0) # JNum (of_int serverTime) # rest)) st =
     (let rtt0 = (date_now st + 2 ^ 31) mod 2 ^ 32 - 2 ^ 31 - t0;
          rtt = (if rtt0 < 0 then rtt0 + 2 ^ 32 else rtt0);
          d = serverTime - t0 - (3 * rtt + 4) div 5
      in Inr (st\<lparr>roundTripTime := Finite (of_int rtt),
                 serverTimeDelta := Finite (of_int (if d < 0 then d + 2 ^ 32 else d))\<rparr>))"
proof -
  define now32 where "now32 = (date_now st + 2 ^ 31) mod 2 ^ 32 - 2 ^ 31"
  define rtt0 where "rtt0 = now32 - t0"
  define rtt where "rtt = (if rtt0 < 0 then rtt0 + 2 ^ 32 else rtt0)"
  define D where "D = serverTime - t0"
  define d where "d = D - (3 * rtt + 4) div 5"
  have nb: "- (2 ^ 31) \<le> now32" "now32 < 2 ^ 31"
    using wrap_range [of "date_now st"] by (simp_all add: now32_def)
  have rb0: "\<bar>rtt0\<bar> < 2 ^ 32"
    using nb t0 by (simp add: rtt0_def)
  have rb53: "\<bar>rtt0\<bar> < 2 ^ 53"
    using rb0 by simp
  have rb: "0 \<le> rtt" "rtt < 2 ^ 32"
    using rb0 by (auto simp add: rtt_def)
  have Db: "\<bar>D\<bar> < 2 ^ 34"
    using t0 s by (simp add: D_def)
  have db: "\<bar>d\<bar> < 2 ^ 53"
    using Db rb by (simp add: d_def)
  have i0: "index0 (JArr (JNum (of_int t0) # JNum (of_int serverTime) # rest))
              = Inr (Some (JNum (of_int t0)))"
    and i1: "index1 (JArr (JNum (of_int t0) # JNum (of_int serverTime) # rest))
              = Inr (Some (JNum (of_int serverTime)))"
    by simp_all
  have c: "ToNumber C (Some (JNum (of_int t0))) = Inr (Finite (of_int t0))"
    using t0 double_int [of t0] by simp
  have sv: "ToNumber C (Some (JNum (of_int serverTime))) = Inr (Finite (of_int serverTime))"
    using s double_int [of serverTime] by simp
  have dn: "asInt32 (Date_now st) = Finite (of_int now32)"
    by (simp only: Date_now_int [OF now] asInt32_int now32_def)
  have r0: "number_sub (Finite (of_int now32)) (Finite (of_int t0)) = Finite (of_int rtt0)"
    unfolding rtt0_def using rb0 by (intro number_sub_int) (simp add: rtt0_def)
  have r: "(if number_less (Finite (of_int rtt0)) (Finite 0)
            then number_add (Finite (of_int rtt0)) (Finite 0x100000000)
            else Finite (of_int rtt0)) = Finite (of_int rtt)"
    unfolding rtt_def using rb53 by (rule correct_int)
  have Dn: "number_sub (Finite (of_int serverTime)) (Finite (of_int t0)) = Finite (of_int D)"
    unfolding D_def using Db by (intro number_sub_int) (simp add: D_def)
  have fl: "Math_floor (number_sub (Finite (of_int D))
              (number_mul (double (6 / 10)) (Finite (of_int rtt)))) = Finite (of_int d)"
    unfolding d_def using Db rb by (rule delta_floor)
  have cor: "(if number_less (Finite (of_int d)) (Finite 0)
              then number_add (Finite (of_int d)) (Finite 0x100000000)
              else Finite (of_int d)) = Finite (of_int (if d < 0 then d + 2 ^ 32 else d))"
    using db by (rule correct_int)
  have "onClockSyncReply C (JArr (JNum (of_int t0) # JNum (of_int serverTime) # rest)) st =
          Inr (st\<lparr>roundTripTime := Finite (of_int rtt),
                  serverTimeDelta := Finite (of_int (if d < 0 then d + 2 ^ 32 else d))\<rparr>)"
    apply (simp only: onClockSyncReply_def i0 i1 c sv sum.case Let_def dn r0 r)
    apply (simp only: Protocol.simps Dn fl)
    apply (cases "d < 0")
     apply (simp_all add: number_less_int)
    using cor apply simp_all
    done
  then show ?thesis
    by (simp only: Let_def now32_def rtt0_def rtt_def D_def d_def)
qed

lemma new_Protocol_fields:
  "readyState (socket (new_Protocol u t)) = CONNECTING"
  "transmitted (socket (new_Protocol u t)) = []"
  "packetQueue (new_Protocol u t) = []"
  "eventHandler (new_Protocol u t) = Noop"
  "handlers (new_Protocol u t) = [5 \<mapsto> [OnClockSyncReply]]"
  "syncTimer (new_Protocol u t) = 0"
  "serverTimeDelta (new_Protocol u t) = Finite 0"
  "roundTripTime (new_Protocol u t) = Finite 0"
  "simulation (new_Protocol u t) = None"
  "date_now (new_Protocol u t) = t"
  "intervals (new_Protocol u t) = []"
  "console (new_Protocol u t) = []"
  "calls (new_Protocol u t) = []"
  by (simp_all add: new_Protocol_def initializePacketHandlers_def registerPacketHandler_def)

lemma floor_delta:
  "\<lfloor>(of_int s - of_int c - (6 / 10) * of_int r :: rat)\<rfloor> = s - c - (3 * r + 4) div 5"
  by linarith

lemma reply_general:
  assumes "\<bar>date_now st\<bar> < 2 ^ 53"
    and "- (2 ^ 31) \<le> t0" and "t0 < 2 ^ 31"
    and "- (2 ^ 31) \<le> serverTime" and "serverTime < 2 ^ 32"
  shows "\<exists>st' rtt.
           onClockSyncReply C (JArr [JNum (of_int t0), JNum (of_int serverTime)]) st = Inr st'
         \<and> rtt = (let rtt0 = (date_now st + 2 ^ 31) mod 2 ^ 32 - 2 ^ 31 - t0
                  in if rtt0 < 0 then rtt0 + 2 ^ 32 else rtt0)
         \<and> roundTripTime st' = Finite (of_int rtt)
         \<and> serverTimeDelta st' =
             Finite (of_int (let d = \<lfloor>of_int serverTime - of_int t0 - 0.6 * of_int rtt :: rat\<rfloor>
                             in if d < 0 then d + 2 ^ 32 else d))"
proof -
  define rtt0 where "rtt0 = (date_now st + 2 ^ 31) mod 2 ^ 32 - 2 ^ 31 - t0"
  define rtt where "rtt = (if rtt0 < 0 then rtt0 + 2 ^ 32 else rtt0)"
  define d where "d = serverTime - t0 - (3 * rtt + 4) div 5"
  define st' where
    "st' = st\<lparr>roundTripTime := Finite (of_int rtt),
              serverTimeDelta := Finite (of_int (if d < 0 then d + 2 ^ 32 else d))\<rparr>"
  have run: "onClockSyncReply C (JArr [JNum (of_int t0), JNum (of_int serverTime)]) st = Inr st'"
    using onClockSyncReply_int32 [OF assms, of C "[]"]
    by (simp only: Let_def rtt0_def rtt_def d_def st'_def)
  have r: "roundTripTime st' = Finite (of_int rtt)"
    by (simp add: st'_def)
  have fl: "\<lfloor>of_int serverTime - of_int t0 - 0.6 * of_int rtt :: rat\<rfloor> = d"
    unfolding d_def by linarith
  have "serverTimeDelta st' = Finite (of_int (if d < 0 then d + 2 ^ 32 else d))"
    by (simp add: st'_def)
  then have dl: "serverTimeDelta st' =
      Finite (of_int (let d = \<lfloor>of_int serverTime - of_int t0 - 0.6 * of_int rtt :: rat\<rfloor>
                      in if d < 0 then d + 2 ^ 32 else d))"
    by (simp only: fl Let_def)
  have "rtt = (let rtt0 = (date_now st + 2 ^ 31) mod 2 ^ 32 - 2 ^ 31 - t0
               in if rtt0 < 0 then rtt0 + 2 ^ 32 else rtt0)"
    by (simp only: Let_def rtt_def rtt0_def)
  with run r dl show ?thesis
    by blast
qed

lemma asInt32_Date_now:
  "\<bar>date_now st\<bar> < 2 ^ 53 \<Longrightarrow>
     asInt32 (Date_now st) = Finite (of_int ((date_now st + 2 ^ 31) mod 2 ^ 32 - 2 ^ 31))"
  by (simp only: Date_now_int asInt32_int)

lemma reply_at:
  assumes "\<bar>date_now st\<bar> < 2 ^ 53"
    and "- (2 ^ 31) \<le> t0" and "t0 < 2 ^ 31"
    and "- (2 ^ 31) \<le> serverTime" and "serverTime < 2 ^ 32"
    and "rtt0 = (date_now st + 2 ^ 31) mod 2 ^ 32 - 2 ^ 31 - t0"
    and "rtt = (if rtt0 < 0 then rtt0 + 2 ^ 32 else rtt0)"
    and "d = serverTime - t0 - (3 * rtt + 4) div 5"
    and "delta = (if d < 0 then d + 2 ^ 32 else d)"
  shows "onClockSyncReply C (JArr [JNum (of_int t0), JNum (of_int serverTime)]) st =
           Inr (st\<lparr>roundTripTime := Finite (of_int rtt), serverTimeDelta := Finite (of_int delta)\<rparr>)"
  using onClockSyncReply_int32 [OF assms(1-5), of C "[]"]
  by (simp only: Let_def assms(6-9))

lemma reply_scenario:
  "\<exists>st'. run [syncClocks stringify,
               \<lambda>s. Inr (s\<lparr>date_now := 1200\<rparr>),
               dispatchEvent (\<lambda>d. Some (JArr [JNum 5, JNum 1000, JNum 5000])) C
                 (EvMessage \<lparr>data = ''[5,1000,5000]''\<rparr>)]
            (new_Protocol ''ws://host/dotproduct/v1/trench'' 1000) = Inr st'
       \<and> packetQueue st' = [stringify (JArr [JNum 4, JNum 1000])]
       \<and> roundTripTime st' = Finite 200 \<and> serverTimeDelta st' = Finite 3880"
proof -
  define st0 where "st0 = new_Protocol ''ws://host/dotproduct/v1/trench'' 1000"
  define st1 where "st1 = st0\<lparr>packetQueue := [stringify (JArr [JNum 4, JNum 1000])]\<rparr>"
  define st2 where "st2 = st1\<lparr>date_now := 1200\<rparr>"
  define st3 where "st3 = st2\<lparr>calls := [PacketCall OnClockSyncReply (JArr [JNum 1000, JNum 5000])]\<rparr>"
  have a: "asInt32 (Date_now st0) = Finite 1000"
    using asInt32_Date_now [of st0] by (simp add: st0_def new_Protocol_fields)
  have 1: "syncClocks stringify st0 = Inr st1"
    by (simp add: syncClocks_def send_def a st1_def) (simp add: st0_def new_Protocol_fields)
  have h: "handlers st2 5 = Some [OnClockSyncReply]" and c: "calls st2 = []"
    by (simp_all add: st2_def st1_def st0_def new_Protocol_fields)
  have "onClockSyncReply C (JArr [JNum (of_int 1000), JNum (of_int 5000)]) st3 =
          Inr (st3\<lparr>roundTripTime := Finite (of_int 200), serverTimeDelta := Finite (of_int 3880)\<rparr>)"
    by (rule reply_at [where ?rtt0.0 = 200 and d = 3880])
      (simp_all add: st3_def st2_def st1_def st0_def new_Protocol_fields)
  then have 3: "onClockSyncReply C (JArr [JNum 1000, JNum 5000]) st3 =
          Inr (st3\<lparr>roundTripTime := Finite 200, serverTimeDelta := Finite 3880\<rparr>)"
    by simp
  have 2: "dispatchEvent (\<lambda>d. Some (JArr [JNum 5, JNum 1000, JNum 5000])) C
             (EvMessage \<lparr>data = ''[5,1000,5000]''\<rparr>) st2
           = Inr (st3\<lparr>roundTripTime := Finite 200, serverTimeDelta := Finite 3880\<rparr>)"
    by (simp add: onMessage_def h invoke_def c 3 [unfolded st3_def] st3_def)
  have "run [syncClocks stringify,
               \<lambda>s. Inr (s\<lparr>date_now := 1200\<rparr>),
               dispatchEvent (\<lambda>d. Some (JArr [JNum 5, JNum 1000, JNum 5000])) C
                 (EvMessage \<lparr>data = ''[5,1000,5000]''\<rparr>)] st0
          = Inr (st3\<lparr>roundTripTime := Finite 200, serverTimeDelta := Finite 3880\<rparr>)"
    using 1 2 by (simp add: st2_def del: dispatchEvent.simps)
  moreover have "packetQueue (st3\<lparr>roundTripTime := Finite 200, serverTimeDelta := Finite 3880\<rparr>)
                   = [stringify (JArr [JNum 4, JNum 1000])]"
    by (simp add: st3_def st2_def st1_def)
  ultimately show ?thesis
    unfolding st0_def by simp
qed

text \<open>
  C1. A clock-sync reply carries \<open>t0\<close>, a signed integer of 32 bits, and
  \<open>serverTime\<close>, an integer of 32 bits, signed or unsigned. The stored
  round-trip time is the local time reduced to 32 bits and read as two's
  complement, minus \<open>t0\<close>, plus \<open>2^32\<close> if that is negative; the stored delta is
  the floor of \<open>serverTime - t0 - 0.6 * rtt\<close>, plus \<open>2^32\<close> if that is
  negative. In the scenario, a client constructed at local time 1000 sends its
  probe (queued, the socket is still connecting, with the time 1000 in it), the
  clock moves to 1200, and the reply \<open>[5, 1000, 5000]\<close> arrives as a
  message: the stored round-trip time is 200 and the stored delta is 3880.
\<close>

theorem clock_sync_reply_computes:
  "(\<bar>date_now st\<bar> < 2 ^ 53 \<and> - (2 ^ 31) \<le> t0 \<and> t0 < 2 ^ 31
      \<and> - (2 ^ 31) \<le> serverTime \<and> serverTime < 2 ^ 32 \<longrightarrow>
      (\<exists>st' rtt.
           onClockSyncReply C (JArr [JNum (of_int t0), JNum (of_int serverTime)]) st = Inr st'
         \<and> rtt = (let rtt0 = (date_now st + 2 ^ 31) mod 2 ^ 32 - 2 ^ 31 - t0
                  in if rtt0 < 0 then rtt0 + 2 ^ 32 else rtt0)
         \<and> roundTripTime st' = Finite (of_int rtt)
         \<and> serverTimeDelta st' =
             Finite (of_int (let d = \<lfloor>of_int serverTime - of_int t0 - 0.6 * of_int rtt :: rat\<rfloor>
                             in if d < 0 then d + 2 ^ 32 else d))))
   \<and> (\<exists>st'. run [syncClocks stringify,
                 \<lambda>s. Inr (s\<lparr>date_now := 1200\<rparr>),
                 dispatchEvent (\<lambda>d. Some (JArr [JNum 5, JNum 1000, JNum 5000])) C
                   (EvMessage \<lparr>data = ''[5,1000,5000]''\<rparr>)]
              (new_Protocol ''ws://host/dotproduct/v1/trench'' 1000) = Inr st'
       \<and> packetQueue st' = [stringify (JArr [JNum 4, JNum 1000])]
       \<and> roundTripTime st' = Finite 200 \<and> serverTimeDelta st' = Finite 3880)"
  using reply_general reply_scenario by blast

theorem clock_sync_reply_computes_witness:
  "\<bar>date_now (new_Protocol ''ws://host/dotproduct/v1/trench'' 1728724336740)\<bar> < 2 ^ 53
   \<and> - (2 ^ 31) \<le> (2147483548 :: int) \<and> (2147483548 :: int) < 2 ^ 31
   \<and> - (2 ^ 31) \<le> (3000000000 :: int) \<and> (3000000000 :: int) < 2 ^ 32
   \<and> (\<exists>st'. onClockSyncReply \<lparr>StringToNumber = \<lambda>s. NaN, NumberToString = \<lambda>r. ''0''\<rparr>
               (JArr [JNum 2147483548, JNum 3000000000])
               (new_Protocol ''ws://host/dotproduct/v1/trench'' 1728724336740) = Inr st'
         \<and> roundTripTime st' = Finite 200
         \<and> serverTimeDelta st' = Finite 852516332)"
proof -
  have f: "\<lfloor>3000000000 - 2147483548 - 6 / 10 * 200 :: rat\<rfloor> = 852516332"
    by simp
  from clock_sync_reply_computes [of "new_Protocol ''ws://host/dotproduct/v1/trench'' 1728724336740"
      2147483548 3000000000 "\<lparr>StringToNumber = \<lambda>s. NaN, NumberToString = \<lambda>r. ''0''\<rparr>"]
  show ?thesis
    by (auto simp add: new_Protocol_fields Let_def f)
qed

text \<open>
  C2. The stored delta leaves the range from 0 to \<open>2^32\<close>. A probe is sent
  when the local clock, as a 32-bit integer, reads 2147483548, one hundred
  milliseconds before it wraps; the reply arrives 200 milliseconds later (the wall
  clock reads 1728724336740, as a 32-bit integer - 2147483548) and carries the
  server time - 2147483648: the round-trip time is 200 and the stored delta is
  - 20. A reply that carries the server time 4294967295 for a probe sent at
  - 1000 and received at - 800 (the wall clock reads 1730871819488) stores
  4294968175, above the range. With all three timestamps below \<open>2^31\<close> and
  not negative, a local clock that steps back one millisecond between probe and
  reply (a probe sent at 2147483647, the wall clock reads 1728724336638 at the
  reply, as a 32-bit integer 2147483646, the server time is 0) stores
  - 429496728.
\<close>

theorem delta_out_of_range:
  "(\<exists>st'. onClockSyncReply C (JArr [JNum 2147483548, JNum (- 2147483648)])
            (new_Protocol ''ws://host/dotproduct/v1/trench'' 1728724336740) = Inr st'
        \<and> roundTripTime st' = Finite 200 \<and> serverTimeDelta st' = Finite (- 20))
   \<and> (\<exists>st'. onClockSyncReply C (JArr [JNum (- 1000), JNum 4294967295])
            (new_Protocol ''ws://host/dotproduct/v1/trench'' 1730871819488) = Inr st'
        \<and> roundTripTime st' = Finite 200 \<and> serverTimeDelta st' = Finite 4294968175)
   \<and> (\<exists>st'. onClockSyncReply C (JArr [JNum 2147483647, JNum 0])
            (new_Protocol ''ws://host/dotproduct/v1/trench'' 1728724336638) = Inr st'
        \<and> roundTripTime st' = Finite 4294967295 \<and> serverTimeDelta st' = Finite (- 429496728))"
proof -
  have 1: "onClockSyncReply C (JArr [JNum (of_int 2147483548), JNum (of_int (- 2147483648))])
             (new_Protocol ''ws://host/dotproduct/v1/trench'' 1728724336740)
           = Inr ((new_Protocol ''ws://host/dotproduct/v1/trench'' 1728724336740)
                    \<lparr>roundTripTime := Finite (of_int 200), serverTimeDelta := Finite (of_int (- 20))\<rparr>)"
    by (rule reply_at [where ?rtt0.0 = "- 4294967096" and d = "- 4294967316"])
      (simp_all add: new_Protocol_fields)
  have 2: "onClockSyncReply C (JArr [JNum (of_int (- 1000)), JNum (of_int 4294967295)])
             (new_Protocol ''ws://host/dotproduct/v1/trench'' 1730871819488)
           = Inr ((new_Protocol ''ws://host/dotproduct/v1/trench'' 1730871819488)
                    \<lparr>roundTripTime := Finite (of_int 200), serverTimeDelta := Finite (of_int 4294968175)\<rparr>)"
    by (rule reply_at [where ?rtt0.0 = 200 and d = 4294968175])
      (simp_all add: new_Protocol_fields)
  have 3: "onClockSyncReply C (JArr [JNum (of_int 2147483647), JNum (of_int 0)])
             (new_Protocol ''ws://host/dotproduct/v1/trench'' 1728724336638)
           = Inr ((new_Protocol ''ws://host/dotproduct/v1/trench'' 1728724336638)
                    \<lparr>roundTripTime := Finite (of_int 4294967295),
                     serverTimeDelta := Finite (of_int (- 429496728))\<rparr>)"
    by (rule reply_at [where ?rtt0.0 = "- 1" and d = "- 4724464024"])
      (simp_all add: new_Protocol_fields)
  from 1 2 3 show ?thesis
    by simp
qed

lemma elapsed_congruent:
  fixes d L L' :: int
  assumes "R = (L + d + 2 ^ 31) mod 2 ^ 32 - 2 ^ 31"
    and "x = (if R - d < 0 then R - d + 2 ^ 32 else R - d)"
    and "A = (L' + 2 ^ 31) mod 2 ^ 32 - 2 ^ 31"
    and "res = (if A - x < 0 then A - x + 2 ^ 32 else A - x)"
  shows "res mod 2 ^ 32 = (L' - L) mod 2 ^ 32"
proof -
  have "x mod 2 ^ 32 = (R - d) mod 2 ^ 32"
    unfolding assms(2) by (rule correct_mod)
  also have "\<dots> = (L + d - d) mod 2 ^ 32"
    unfolding assms(1) by (rule mod_diff_cong [OF wrap_cong refl])
  finally have x: "x mod 2 ^ 32 = L mod 2 ^ 32"
    by simp
  have "res mod 2 ^ 32 = (A - x) mod 2 ^ 32"
    unfolding assms(4) by (rule correct_mod)
  also have "\<dots> = (L' - L) mod 2 ^ 32"
    unfolding assms(3) by (rule mod_diff_cong [OF wrap_cong x])
  finally show ?thesis .
qed

lemma elapsed_exact:
  fixes d L L' :: int
  assumes R: "R = (L + d + 2 ^ 31) mod 2 ^ 32 - 2 ^ 31"
    and x: "x = (if R - d < 0 then R - d + 2 ^ 32 else R - d)"
    and A: "A = (L' + 2 ^ 31) mod 2 ^ 32 - 2 ^ 31"
    and res: "res = (if A - x < 0 then A - x + 2 ^ 32 else A - x)"
    and d0: "0 \<le> d" and d1: "d < 2 ^ 32" and e0: "0 \<le> L' - L" and e1: "L' - L < 2 ^ 31"
  shows "res = L' - L"
proof -
  define y where "y = A - x"
  have Rb: "- 2147483648 \<le> R" "R < 2147483648"
    using wrap_range [of "L + d"] by (simp_all add: R)
  have Ab: "- 2147483648 \<le> A" "A < 2147483648"
    using wrap_range [of L'] by (simp_all add: A)
  have xb: "- 2147483648 < x" "x < 4294967296"
    using Rb d0 d1 by (simp_all add: x)
  have "res mod 2 ^ 32 = (L' - L) mod 2 ^ 32"
    using R x A res by (rule elapsed_congruent)
  moreover have "res mod 2 ^ 32 = y mod 2 ^ 32"
    unfolding res y_def by (rule correct_mod)
  ultimately have "y mod 2 ^ 32 = (L' - L) mod 2 ^ 32"
    by simp
  then have "(2 ^ 32 :: int) dvd y - (L' - L)"
    by (simp add: mod_eq_dvd_iff)
  then obtain m where m: "y - (L' - L) = 4294967296 * m"
    by (auto simp add: dvd_def)
  have yb: "- 6442450944 < y" "y < 4294967296"
    using Ab xb by (simp_all add: y_def)
  from m yb e0 e1 have "- 2 < m" "m < 1"
    by simp_all
  then have "m = - 1 \<or> m = 0"
    by auto
  then show ?thesis
    using m e0 e1 by (auto simp add: res y_def)
qed

lemma remoteTime_int:
  assumes "simulation st = Some sim" and "serverTimeDelta st = Finite (of_int d)"
    and "\<bar>d\<bar> < 2 ^ 52" and "\<bar>timeMillis sim\<bar> < 2 ^ 52"
  shows "remoteTime st = Finite (of_int ((timeMillis sim + d + 2 ^ 31) mod 2 ^ 32 - 2 ^ 31))"
proof -
  have g: "getTimeMillis sim = Finite (of_int (timeMillis sim))"
    using assms(4) by (intro getTimeMillis_int) simp
  have "\<bar>timeMillis sim + d\<bar> < 2 ^ 53"
    using assms(3,4) by simp
  then have "number_add (Finite (of_int (timeMillis sim))) (Finite (of_int d))
               = Finite (of_int (timeMillis sim + d))"
    by (rule number_add_int)
  then show ?thesis
    by (simp only: remoteTime_def assms(1,2) option.case g asInt32_int)
qed

lemma getMillisSinceServerTime_int:
  assumes "simulation st = Some sim" and "serverTimeDelta st = Finite (of_int d)"
    and "\<bar>d\<bar> < 2 ^ 52" and "\<bar>timeMillis sim\<bar> < 2 ^ 52" and "\<bar>R\<bar> < 2 ^ 32"
    and x: "x = (if R - d < 0 then R - d + 2 ^ 32 else R - d)"
    and A: "A = (timeMillis sim + 2 ^ 31) mod 2 ^ 32 - 2 ^ 31"
    and res: "res = (if A - x < 0 then A - x + 2 ^ 32 else A - x)"
  shows "getMillisSinceServerTime st (Finite (of_int R)) = Finite (of_int res)"
proof -
  have "\<bar>timeMillis sim\<bar> < 2 ^ 53"
    using assms(4) by simp
  then have g: "asInt32 (getTimeMillis sim) = Finite (of_int A)"
    by (simp only: getTimeMillis_int asInt32_int A)
  have Ab: "- 2147483648 \<le> A" "A < 2147483648"
    using wrap_range [of "timeMillis sim"] by (simp_all add: A)
  have b1: "\<bar>R - d\<bar> < 2 ^ 53"
    using assms(3,5) by simp
  have s1: "number_sub (Finite (of_int R)) (Finite (of_int d)) = Finite (of_int (R - d))"
    using b1 by (rule number_sub_int)
  have c1: "(if number_less (Finite (of_int (R - d))) (Finite 0)
             then number_add (Finite (of_int (R - d))) (Finite 0x100000000)
             else Finite (of_int (R - d))) = Finite (of_int x)"
    unfolding x using b1 by (rule correct_int)
  have xb: "\<bar>x\<bar> < 2 ^ 52 + 2 ^ 33"
    using assms(3,5) by (auto simp add: x)
  have b2: "\<bar>A - x\<bar> < 2 ^ 53"
    using xb Ab by simp
  have s2: "number_sub (Finite (of_int A)) (Finite (of_int x)) = Finite (of_int (A - x))"
    using b2 by (rule number_sub_int)
  have c2: "(if number_less (Finite (of_int (A - x))) (Finite 0)
             then number_add (Finite (of_int (A - x))) (Finite 0x100000000)
             else Finite (of_int (A - x))) = Finite (of_int res)"
    unfolding res using b2 by (rule correct_int)
  show ?thesis
    by (simp only: getMillisSinceServerTime_def assms(1,2) option.case Let_def s1 c1 g s2 c2)
qed

lemma stamp_elapsed:
  assumes "serverTimeDelta st = Finite (of_int d)"
    and "\<bar>d\<bar> < 2 ^ 52" and "\<bar>L\<bar> < 2 ^ 52" and "\<bar>L'\<bar> < 2 ^ 52"
  shows "\<exists>res. getMillisSinceServerTime (st\<lparr>simulation := Some \<lparr>timeMillis = L'\<rparr>\<rparr>)
                 (remoteTime (st\<lparr>simulation := Some \<lparr>timeMillis = L\<rparr>\<rparr>)) = Finite (of_int res)
             \<and> res mod 2 ^ 32 = (L' - L) mod 2 ^ 32
             \<and> (0 \<le> d \<and> d < 2 ^ 32 \<and> 0 \<le> L' - L \<and> L' - L < 2 ^ 31 \<longrightarrow> res = L' - L)"
proof -
  define R where "R = (L + d + 2 ^ 31) mod 2 ^ 32 - 2 ^ 31"
  define x where "x = (if R - d < 0 then R - d + 2 ^ 32 else R - d)"
  define A where "A = (L' + 2 ^ 31) mod 2 ^ 32 - 2 ^ 31"
  define res where "res = (if A - x < 0 then A - x + 2 ^ 32 else A - x)"
  have Rb: "\<bar>R\<bar> < 2 ^ 32"
    using wrap_range [of "L + d"] by (simp add: R_def)
  have r: "remoteTime (st\<lparr>simulation := Some \<lparr>timeMillis = L\<rparr>\<rparr>) = Finite (of_int R)"
    using remoteTime_int [of "st\<lparr>simulation := Some \<lparr>timeMillis = L\<rparr>\<rparr>" "\<lparr>timeMillis = L\<rparr>" d] assms
    by (simp add: R_def)
  have g: "getMillisSinceServerTime (st\<lparr>simulation := Some \<lparr>timeMillis = L'\<rparr>\<rparr>) (Finite (of_int R))
             = Finite (of_int res)"
    using assms Rb
    by (intro getMillisSinceServerTime_int [where sim = "\<lparr>timeMillis = L'\<rparr>" and d = d and x = x and A = A])
      (simp_all add: x_def A_def res_def)
  have c: "res mod 2 ^ 32 = (L' - L) mod 2 ^ 32"
    using R_def x_def A_def res_def by (rule elapsed_congruent)
  have e: "0 \<le> d \<and> d < 2 ^ 32 \<and> 0 \<le> L' - L \<and> L' - L < 2 ^ 31 \<longrightarrow> res = L' - L"
    using elapsed_exact [OF R_def x_def A_def res_def] by blast
  from g c e show ?thesis
    unfolding r by blast
qed

text \<open>
  C8. The stored delta and the simulation times \<open>L\<close> and \<open>L'\<close> are integers
  of magnitude below \<open>2^52\<close>. A message is stamped with the remote time when the
  simulation clock reads \<open>L\<close>; the elapsed time since that stamp, asked when
  the simulation clock reads \<open>L'\<close>, is an integer congruent to \<open>L' - L\<close>
  modulo \<open>2^32\<close>. With a stored delta from 0 up to \<open>2^32\<close> and less than
  \<open>2^31\<close> milliseconds elapsed, it is \<open>L' - L\<close> itself.
\<close>

theorem stamp_roundtrip:
  "serverTimeDelta st = Finite (of_int d) \<and> \<bar>d\<bar> < 2 ^ 52 \<and> \<bar>L\<bar> < 2 ^ 52 \<and> \<bar>L'\<bar> < 2 ^ 52 \<longrightarrow>
     (\<exists>res. getMillisSinceServerTime (st\<lparr>simulation := Some \<lparr>timeMillis = L'\<rparr>\<rparr>)
                 (remoteTime (st\<lparr>simulation := Some \<lparr>timeMillis = L\<rparr>\<rparr>)) = Finite (of_int res)
             \<and> res mod 2 ^ 32 = (L' - L) mod 2 ^ 32
             \<and> (0 \<le> d \<and> d < 2 ^ 32 \<and> 0 \<le> L' - L \<and> L' - L < 2 ^ 31 \<longrightarrow> res = L' - L))"
  using stamp_elapsed by blast

theorem stamp_roundtrip_witness:
  "serverTimeDelta ((new_Protocol ''ws://host/dotproduct/v1/trench'' 1000)\<lparr>serverTimeDelta := Finite 3880\<rparr>)
     = Finite (of_int 3880)
   \<and> \<bar>3880 :: int\<bar> < 2 ^ 52 \<and> \<bar>2147483000 :: int\<bar> < 2 ^ 52 \<and> \<bar>2147483200 :: int\<bar> < 2 ^ 52
   \<and> 0 \<le> (3880 :: int) \<and> (3880 :: int) < 2 ^ 32
   \<and> (0 :: int) \<le> 2147483200 - 2147483000 \<and> (2147483200 - 2147483000 :: int) < 2 ^ 31
   \<and> remoteTime ((new_Protocol ''ws://host/dotproduct/v1/trench'' 1000)
         \<lparr>serverTimeDelta := Finite 3880, simulation := Some \<lparr>timeMillis = 2147483000\<rparr>\<rparr>)
       = Finite (- 2147480416)
   \<and> getMillisSinceServerTime ((new_Protocol ''ws://host/dotproduct/v1/trench'' 1000)
         \<lparr>serverTimeDelta := Finite 3880, simulation := Some \<lparr>timeMillis = 2147483200\<rparr>\<rparr>)
         (Finite (- 2147480416)) = Finite 200"
proof -
  have r: "remoteTime ((new_Protocol ''ws://host/dotproduct/v1/trench'' 1000)
         \<lparr>serverTimeDelta := Finite 3880, simulation := Some \<lparr>timeMillis = 2147483000\<rparr>\<rparr>)
       = Finite (- 2147480416)"
    using remoteTime_int [of "(new_Protocol ''ws://host/dotproduct/v1/trench'' 1000)
         \<lparr>serverTimeDelta := Finite 3880, simulation := Some \<lparr>timeMillis = 2147483000\<rparr>\<rparr>"
        "\<lparr>timeMillis = 2147483000\<rparr>" 3880]
    by simp
  from stamp_roundtrip [where st = "(new_Protocol ''ws://host/dotproduct/v1/trench'' 1000)\<lparr>serverTimeDelta := Finite 3880\<rparr>"
      and d = 3880 and L' = 2147483200 and L = 2147483000] r
  show ?thesis
    by simp
qed

section \<open>The outbound queue\<close>

lemma send_queued:
  "readyState (socket st) \<noteq> OPEN \<Longrightarrow>
     send stringify m st = Inr (st\<lparr>packetQueue := packetQueue st @ [stringify m]\<rparr>)"
  by (simp add: send_def)

lemma send_open:
  "readyState (socket st) = OPEN \<Longrightarrow>
     send stringify m st =
       Inr (st\<lparr>socket := (socket st)\<lparr>transmitted := transmitted (socket st) @ [stringify m]\<rparr>\<rparr>)"
  by (simp add: send_def WebSocket_send_def)

lemma run_send_queued:
  "readyState (socket st) \<noteq> OPEN \<Longrightarrow>
     run (map (send stringify) ms) st =
       Inr (st\<lparr>packetQueue := packetQueue st @ map stringify ms\<rparr>)"
proof (induction ms arbitrary: st)
  case Nil
  then show ?case by simp
next
  case (Cons m ms)
  then show ?case by (simp add: send_queued)
qed

lemma run_send_open:
  "readyState (socket st) = OPEN \<Longrightarrow>
     run (map (send stringify) ms) st =
       Inr (st\<lparr>socket := (socket st)\<lparr>transmitted := transmitted (socket st) @ map stringify ms\<rparr>\<rparr>)"
proof (induction ms arbitrary: st)
  case Nil
  then show ?case by simp
next
  case (Cons m ms)
  then show ?case by (simp add: send_open)
qed

lemma forEach_send_open:
  "readyState ws = OPEN \<Longrightarrow>
     forEach_send q ws = Inr (ws\<lparr>transmitted := transmitted ws @ q\<rparr>)"
proof (induction q arbitrary: ws)
  case Nil
  then show ?case by simp
next
  case (Cons p q)
  then show ?case by (simp add: WebSocket_send_def)
qed

lemma open_flushes:
  "dispatchEvent parse C EvOpen st =
     Inr (st\<lparr>socket := (socket st)\<lparr>readyState := OPEN,
                                   transmitted := transmitted (socket st) @ packetQueue st\<rparr>,
             packetQueue := []\<rparr>)"
  by (simp add: onOpen_def setReadyState_def forEach_send_open)

text \<open>
  C3. While the socket is not open, every message sent is appended to the
  queue and nothing is transmitted. The open event hands the queue to the
  transport in the order of sending, each frame once, behind what was
  transmitted before, and empties the queue. The sends that follow are
  transmitted at once, in order, and the queue stays empty.
\<close>

theorem queue_then_flush:
  assumes "readyState (socket st) \<noteq> OPEN"
  shows "\<exists>st1 st2 st3.
           run (map (send stringify) ms) st = Inr st1
         \<and> packetQueue st1 = packetQueue st @ map stringify ms
         \<and> transmitted (socket st1) = transmitted (socket st)
         \<and> dispatchEvent parse C EvOpen st1 = Inr st2
         \<and> transmitted (socket st2) = transmitted (socket st) @ packetQueue st @ map stringify ms
         \<and> packetQueue st2 = []
         \<and> run (map (send stringify) ms') st2 = Inr st3
         \<and> transmitted (socket st3) = transmitted (socket st2) @ map stringify ms'
         \<and> packetQueue st3 = []"
proof -
  define st1 where "st1 = st\<lparr>packetQueue := packetQueue st @ map stringify ms\<rparr>"
  define st2 where
    "st2 = st1\<lparr>socket := (socket st1)\<lparr>readyState := OPEN,
                   transmitted := transmitted (socket st1) @ packetQueue st1\<rparr>,
               packetQueue := []\<rparr>"
  define st3 where
    "st3 = st2\<lparr>socket := (socket st2)\<lparr>transmitted := transmitted (socket st2) @ map stringify ms'\<rparr>\<rparr>"
  have 1: "run (map (send stringify) ms) st = Inr st1"
    unfolding st1_def using assms by (rule run_send_queued)
  have 2: "dispatchEvent parse C EvOpen st1 = Inr st2"
    unfolding st2_def by (rule open_flushes)
  have o: "readyState (socket st2) = OPEN"
    by (simp add: st2_def)
  have 3: "run (map (send stringify) ms') st2 = Inr st3"
    unfolding st3_def using o by (rule run_send_open)
  have q1: "packetQueue st1 = packetQueue st @ map stringify ms"
    and t1: "transmitted (socket st1) = transmitted (socket st)"
    by (simp_all add: st1_def)
  have q2: "packetQueue st2 = []"
    and t2: "transmitted (socket st2) = transmitted (socket st) @ packetQueue st @ map stringify ms"
    by (simp_all add: st2_def st1_def)
  have q3: "packetQueue st3 = []"
    and t3: "transmitted (socket st3) = transmitted (socket st2) @ map stringify ms'"
    by (simp_all add: st3_def q2)
  from 1 2 3 q1 t1 q2 t2 q3 t3 show ?thesis
    by blast
qed

theorem queue_then_flush_witness:
  "readyState (socket (new_Protocol ''ws://host/dotproduct/v1/trench'' 1000)) \<noteq> OPEN
   \<and> (\<exists>st1 st2 st3.
         run (map (send (\<lambda>j. case j of JArr [JNum n, JStr s] \<Rightarrow> s | _ \<Rightarrow> ''?''))
                [JArr [JNum 1, JStr ''login''], JArr [JNum 6, JStr ''hello'']])
           (new_Protocol ''ws://host/dotproduct/v1/trench'' 1000) = Inr st1
       \<and> packetQueue st1 = [''login'', ''hello'']
       \<and> transmitted (socket st1) = []
       \<and> dispatchEvent (\<lambda>d. None) \<lparr>StringToNumber = \<lambda>s. NaN, NumberToString = \<lambda>r. ''0''\<rparr> EvOpen st1 = Inr st2
       \<and> transmitted (socket st2) = [''login'', ''hello'']
       \<and> packetQueue st2 = []
       \<and> run (map (send (\<lambda>j. case j of JArr [JNum n, JStr s] \<Rightarrow> s | _ \<Rightarrow> ''?''))
                [JArr [JNum 6, JStr ''again'']]) st2 = Inr st3
       \<and> transmitted (socket st3) = [''login'', ''hello'', ''again'']
       \<and> packetQueue st3 = [])"
  using queue_then_flush [of "new_Protocol ''ws://host/dotproduct/v1/trench'' 1000"
      "\<lambda>j. case j of JArr [JNum n, JStr s] \<Rightarrow> s | _ \<Rightarrow> ''?''"
      "[JArr [JNum 1, JStr ''login''], JArr [JNum 6, JStr ''hello'']]"
      "\<lambda>d. None" "\<lparr>StringToNumber = \<lambda>s. NaN, NumberToString = \<lambda>r. ''0''\<rparr>" "[JArr [JNum 6, JStr ''again'']]"]
  by (auto simp add: new_Protocol_def initializePacketHandlers_def registerPacketHandler_def
      simp del: run.simps dispatchEvent.simps)

section \<open>Closing\<close>

lemma onClose_fields:
  "packetQueue (onClose st) = []"
  "syncTimer (onClose st) = 0"
  "intervals (onClose st) = filter (\<lambda>(j, period). j \<noteq> syncTimer st) (intervals st)"
  "calls (onClose st) = calls st @ [EventCall (eventHandler st)]"
  "socket (onClose st) = socket st"
  "eventHandler (onClose st) = eventHandler st"
  by (simp_all add: onClose_def Timer_clearInterval_def Let_def)

lemma setReadyState_fields:
  "packetQueue (setReadyState r st) = packetQueue st"
  "syncTimer (setReadyState r st) = syncTimer st"
  "intervals (setReadyState r st) = intervals st"
  "calls (setReadyState r st) = calls st"
  "eventHandler (setReadyState r st) = eventHandler st"
  "readyState (socket (setReadyState r st)) = r"
  by (simp_all add: setReadyState_def)

lemma startGame_fresh:
  "startGame stringify sim ship (new_Protocol u t) =
     Inr ((new_Protocol u t)
            \<lparr>simulation := Some sim,
             packetQueue := [stringify (JArr [JNum 2, number_json ship,
                                               number_json (asInt32 (Date_now (new_Protocol u t)))])],
             timerCount := 1, intervals := [(1, 2000)], syncTimer := 1\<rparr>)"
  by (simp add: startGame_def send_def Timer_setInterval_def CLOCK_SYNC_PERIOD_def new_Protocol_def
      initializePacketHandlers_def registerPacketHandler_def Let_def Date_now_def)

text \<open>
  C4, as amended. Each error event and each close event of the socket empties
  the queue, cancels the timer whose identifier is stored as the clock-sync
  timer, resets that identifier and invokes the disconnect callback registered
  at that moment once. After \<open>startGame\<close> on a new protocol the one running timer is
  the clock-sync timer, a close event leaves no timer running, and the cancelled
  timer sends no further probe.
\<close>

theorem close_event_effects:
  "(\<exists>st'. dispatchEvent parse C EvError st = Inr st'
        \<and> packetQueue st' = [] \<and> syncTimer st' = 0
        \<and> intervals st' = filter (\<lambda>(j, period). j \<noteq> syncTimer st) (intervals st)
        \<and> calls st' = calls st @ [EventCall (eventHandler st)])
   \<and> (\<exists>st'. dispatchEvent parse C EvClose st = Inr st'
        \<and> packetQueue st' = [] \<and> syncTimer st' = 0
        \<and> intervals st' = filter (\<lambda>(j, period). j \<noteq> syncTimer st) (intervals st)
        \<and> calls st' = calls st @ [EventCall (eventHandler st)])
   \<and> (\<exists>st1 st2. startGame stringify sim ship (new_Protocol u t) = Inr st1
        \<and> intervals st1 = [(syncTimer st1, CLOCK_SYNC_PERIOD)]
        \<and> dispatchEvent parse C EvClose st1 = Inr st2
        \<and> intervals st2 = [] \<and> packetQueue st2 = []
        \<and> Timer_fire stringify (syncTimer st1) st2 = Inr st2)"
  by (auto simp add: onClose_fields setReadyState_fields startGame_fresh CLOCK_SYNC_PERIOD_def
      Timer_fire_def)

text \<open>
  C4, as stated, fails: a connection that fails delivers an error event and then
  a close event, both run \<open>onClose\<close>, and the registered callback is invoked
  twice.
\<close>

theorem disconnect_callback_twice:
  "\<exists>st'. run [dispatchEvent (\<lambda>d. None) \<lparr>StringToNumber = \<lambda>s. NaN, NumberToString = \<lambda>r. ''0''\<rparr> EvError, dispatchEvent (\<lambda>d. None) \<lparr>StringToNumber = \<lambda>s. NaN, NumberToString = \<lambda>r. ''0''\<rparr> EvClose]
            (registerEventHandler (Callback 1) (new_Protocol ''ws://host/dotproduct/v1/trench'' 1000))
          = Inr st'
       \<and> calls st' = [EventCall (Callback 1), EventCall (Callback 1)]"
  by (simp add: onClose_fields setReadyState_fields registerEventHandler_def new_Protocol_def
      initializePacketHandlers_def registerPacketHandler_def)

lemma registerEventHandler_fields:
  "eventHandler (registerEventHandler c st) = c"
  "calls (registerEventHandler c st) = calls st"
  by (simp_all add: registerEventHandler_def)

lemma foldl_registerEventHandler_calls:
  "calls (foldl (\<lambda>s b. registerEventHandler b s) st bs) = calls st"
  by (induction bs arbitrary: st) (simp_all add: registerEventHandler_fields)

text \<open>
  C10. The protocol holds one disconnect callback: a registration replaces the
  callback held before. After any earlier registrations and a last one of
  \<open>c\<close>, a close event invokes \<open>c\<close> and no other callback.
\<close>

theorem event_handler_replaced:
  "eventHandler (registerEventHandler c (foldl (\<lambda>s b. registerEventHandler b s) st earlier)) = c
   \<and> (\<exists>st'. dispatchEvent parse C EvClose
              (registerEventHandler c (foldl (\<lambda>s b. registerEventHandler b s) st earlier)) = Inr st'
         \<and> calls st' = calls st @ [EventCall c])"
  by (simp add: onClose_fields setReadyState_fields registerEventHandler_fields
      foldl_registerEventHandler_calls)

section \<open>Synchronized time without an estimate\<close>





section \<open>Dispatch of inbound messages\<close>

text \<open>
  The conversion of a value to a string raises exactly for the values that
  \<open>toStringThrows\<close> marks: an object with a member \<^verbatim>\<open>toString\<close> of its own, or
  an array holding one.
\<close>

lemma join_throws: "(\<exists>e. join xs = Inl e) \<longleftrightarrow> (\<exists>x\<in>set xs. \<exists>e. x = Inl e)"
proof (induction xs rule: join.induct)
  case 1
  then show ?case by simp
next
  case (2 a)
  then show ?case by simp
next
  case (3 a b rest)
  show ?case
  proof (cases a)
    case (Inl e)
    then show ?thesis by simp
  next
    case (Inr s)
    with 3 show ?thesis
      by (cases "join (b # rest)") auto
  qed
qed

lemma ToString_throws: "(\<exists>e. ToString p j = Inl e) \<longleftrightarrow> toStringThrows j"
proof (induction p j rule: ToString.induct)
  case (5 p xs)
  have "(\<exists>e. ToString p (JArr xs) = Inl e)
          \<longleftrightarrow> (\<exists>x\<in>set xs. x \<noteq> JNull \<and> (\<exists>e. ToString p x = Inl e))"
    by (auto simp add: join_throws) (metis+)
  also have "\<dots> \<longleftrightarrow> (\<exists>x\<in>set xs. x \<noteq> JNull \<and> toStringThrows x)"
    using 5 by blast
  also have "\<dots> \<longleftrightarrow> (\<exists>x\<in>set xs. toStringThrows x)"
  proof -
    have "toStringThrows x \<Longrightarrow> x \<noteq> JNull" for x
      by auto
    then show ?thesis
      by blast
  qed
  finally show ?case
    by (simp add: list_ex_iff)
qed simp_all

lemma registerPacketHandler_handlers:
  "handlers (registerPacketHandler T h st) =
     (handlers st)(T \<mapsto> (case handlers st T of None \<Rightarrow> [] | Some hs \<Rightarrow> hs) @ [h])"
  by (simp add: registerPacketHandler_def split: option.split)

lemma registerPacketHandler_calls: "calls (registerPacketHandler T h st) = calls st"
  by (simp add: registerPacketHandler_def split: option.split)

lemma onClockSyncReply_calls: "onClockSyncReply C p st = Inr st' \<Longrightarrow> calls st' = calls st"
  by (auto simp add: onClockSyncReply_def Let_def split: sum.splits if_splits)

lemma onClockSyncReply_returns:
  assumes "ToNumber C (case payload of [] \<Rightarrow> None | x # _ \<Rightarrow> Some x) = Inr a"
    and "ToNumber C (case drop 1 payload of [] \<Rightarrow> None | x # _ \<Rightarrow> Some x) = Inr b"
  shows "\<exists>st'. onClockSyncReply C (JArr payload) st = Inr st'"
  using assms by (simp add: onClockSyncReply_def Let_def)

lemma invoke_calls:
  "invoke C h p st = Inr st' \<Longrightarrow> calls st' = calls st @ [PacketCall h p]"
  by (cases h) (auto simp add: invoke_def Let_def dest: onClockSyncReply_calls)

lemma invoke_returns:
  "h = OnClockSyncReply \<longrightarrow>
     (\<exists>a. ToNumber C (case payload of [] \<Rightarrow> None | x # _ \<Rightarrow> Some x) = Inr a)
   \<and> (\<exists>b. ToNumber C (case drop 1 payload of [] \<Rightarrow> None | x # _ \<Rightarrow> Some x) = Inr b) \<Longrightarrow>
     \<exists>st'. invoke C h (JArr payload) st = Inr st'"
  by (cases h) (auto simp add: invoke_def Let_def intro: onClockSyncReply_returns)

lemma forEach_handler_calls:
  "OnClockSyncReply \<in> set hs \<longrightarrow>
     (\<exists>a. ToNumber C (case payload of [] \<Rightarrow> None | x # _ \<Rightarrow> Some x) = Inr a)
   \<and> (\<exists>b. ToNumber C (case drop 1 payload of [] \<Rightarrow> None | x # _ \<Rightarrow> Some x) = Inr b) \<Longrightarrow>
     \<exists>st'. forEach_handler C hs (JArr payload) st = Inr st'
          \<and> calls st' = calls st @ map (\<lambda>h. PacketCall h (JArr payload)) hs"
proof (induction hs arbitrary: st)
  case Nil
  then show ?case by simp
next
  case (Cons h hs)
  from Cons.prems have "h = OnClockSyncReply \<longrightarrow>
     (\<exists>a. ToNumber C (case payload of [] \<Rightarrow> None | x # _ \<Rightarrow> Some x) = Inr a)
   \<and> (\<exists>b. ToNumber C (case drop 1 payload of [] \<Rightarrow> None | x # _ \<Rightarrow> Some x) = Inr b)"
    by simp
  then obtain st1 where 1: "invoke C h (JArr payload) st = Inr st1"
    using invoke_returns by blast
  then have c1: "calls st1 = calls st @ [PacketCall h (JArr payload)]"
    by (rule invoke_calls)
  from Cons.prems have "OnClockSyncReply \<in> set hs \<longrightarrow>
     (\<exists>a. ToNumber C (case payload of [] \<Rightarrow> None | x # _ \<Rightarrow> Some x) = Inr a)
   \<and> (\<exists>b. ToNumber C (case drop 1 payload of [] \<Rightarrow> None | x # _ \<Rightarrow> Some x) = Inr b)"
    by simp
  from Cons.IH [OF this, of st1] obtain st' where
    "forEach_handler C hs (JArr payload) st1 = Inr st'"
    "calls st' = calls st1 @ map (\<lambda>h. PacketCall h (JArr payload)) hs"
    by blast
  with 1 c1 show ?case
    by simp
qed

text \<open>
  C6. Handlers \<open>h1\<close> and then \<open>h2\<close> are registered for a tag; a message
  with that tag arrives. The handlers registered for the tag before them, then
  \<open>h1\<close>, then \<open>h2\<close> are called, one after the other in this order, each
  with the message without its leading tag. (Where the protocol's own clock-sync
  handler is among them, the first two elements of the message convert to
  numbers without an exception.)
\<close>

theorem handlers_run_in_registration_order:
  assumes "parse (data event) = Some (JArr (JNum T # payload))"
    and "OnClockSyncReply \<in> set (case handlers st T of None \<Rightarrow> [] | Some hs \<Rightarrow> hs) \<longrightarrow>
           (\<exists>a. ToNumber C (case payload of [] \<Rightarrow> None | x # _ \<Rightarrow> Some x) = Inr a)
         \<and> (\<exists>b. ToNumber C (case drop 1 payload of [] \<Rightarrow> None | x # _ \<Rightarrow> Some x) = Inr b)"
  shows "\<exists>st'. onMessage parse C event
                 (registerPacketHandler T (Handler h2) (registerPacketHandler T (Handler h1) st))
               = Inr st'
             \<and> calls st' = calls st @ map (\<lambda>h. PacketCall h (JArr payload))
                   ((case handlers st T of None \<Rightarrow> [] | Some hs \<Rightarrow> hs) @ [Handler h1, Handler h2])"
proof -
  define prior where "prior = (case handlers st T of None \<Rightarrow> [] | Some hs \<Rightarrow> hs)"
  define st2 where
    "st2 = registerPacketHandler T (Handler h2) (registerPacketHandler T (Handler h1) st)"
  have hs: "handlers st2 T = Some (prior @ [Handler h1, Handler h2])"
    by (simp add: st2_def prior_def registerPacketHandler_handlers)
  have c: "calls st2 = calls st"
    by (simp add: st2_def registerPacketHandler_calls)
  have "OnClockSyncReply \<in> set (prior @ [Handler h1, Handler h2]) \<longrightarrow>
           (\<exists>a. ToNumber C (case payload of [] \<Rightarrow> None | x # _ \<Rightarrow> Some x) = Inr a)
         \<and> (\<exists>b. ToNumber C (case drop 1 payload of [] \<Rightarrow> None | x # _ \<Rightarrow> Some x) = Inr b)"
    using assms(2) by (simp add: prior_def)
  from forEach_handler_calls [OF this, of st2] obtain st' where
    f: "forEach_handler C (prior @ [Handler h1, Handler h2]) (JArr payload) st2 = Inr st'"
    and t: "calls st' = calls st2 @ map (\<lambda>h. PacketCall h (JArr payload)) (prior @ [Handler h1, Handler h2])"
    by blast
  have "onMessage parse C event st2 = Inr st'"
    using assms(1) hs f by (simp add: onMessage_def)
  with t c show ?thesis
    unfolding st2_def prior_def by auto
qed

theorem handlers_run_in_registration_order_witness:
  "(\<lambda>d. Some (JArr [JNum 5, JNum 1000, JNum 5000])) (data \<lparr>data = ''[5,1000,5000]''\<rparr>)
      = Some (JArr (JNum 5 # [JNum 1000, JNum 5000]))
   \<and> ToNumber \<lparr>StringToNumber = \<lambda>s. NaN, NumberToString = \<lambda>r. ''0''\<rparr> (Some (JNum 1000)) = Inr (Finite 1000)
   \<and> ToNumber \<lparr>StringToNumber = \<lambda>s. NaN, NumberToString = \<lambda>r. ''0''\<rparr> (Some (JNum 5000)) = Inr (Finite 5000)
   \<and> (\<exists>st'. onMessage (\<lambda>d. Some (JArr [JNum 5, JNum 1000, JNum 5000])) \<lparr>StringToNumber = \<lambda>s. NaN, NumberToString = \<lambda>r. ''0''\<rparr> \<lparr>data = ''[5,1000,5000]''\<rparr>
              (registerPacketHandler 5 (Handler 2)
                 (registerPacketHandler 5 (Handler 1)
                    (new_Protocol ''ws://host/dotproduct/v1/trench'' 1200)))
            = Inr st'
         \<and> calls st' = [PacketCall OnClockSyncReply (JArr [JNum 1000, JNum 5000]),
                         PacketCall (Handler 1) (JArr [JNum 1000, JNum 5000]),
                         PacketCall (Handler 2) (JArr [JNum 1000, JNum 5000])])"
proof -
  have a: "double 1000 = Finite 1000" and b: "double 5000 = Finite 5000"
    using double_int [of 1000] double_int [of 5000] by simp_all
  from handlers_run_in_registration_order
      [where parse = "\<lambda>d. Some (JArr [JNum 5, JNum 1000, JNum 5000])"
        and event = "\<lparr>data = ''[5,1000,5000]''\<rparr>" and T = 5
        and payload = "[JNum 1000, JNum 5000]"
        and st = "new_Protocol ''ws://host/dotproduct/v1/trench'' 1200"
        and C = "\<lparr>StringToNumber = \<lambda>s. NaN, NumberToString = \<lambda>r. ''0''\<rparr>"
        and ?h2.0 = 2 and ?h1.0 = 1]
  show ?thesis
    by (simp add: new_Protocol_fields a b)
qed

text \<open>
  What holds of a frame that is not dispatched: a frame that does not parse is
  reported on the console and changes nothing else; a frame whose leading element
  finds no handler is reported on the console and changes nothing else, when its
  conversion to a string does not throw.
\<close>

lemma undecodable_frame_dropped:
  "parse (data event) = None \<Longrightarrow>
     onMessage parse C event st = Inr (st\<lparr>console := console st @ [ConsoleError (data event)]\<rparr>)"
  by (simp add: onMessage_def)

lemma unhandled_tag_dropped:
  "parse (data event) = Some obj \<Longrightarrow> index0 obj = Inr tag \<Longrightarrow>
   handlers_get (handlers st) tag = None \<Longrightarrow> \<not> toStringThrows obj \<Longrightarrow>
     onMessage parse C event st = Inr (st\<lparr>console := console st @ [ConsoleWarn obj]\<rparr>)"
  by (simp add: onMessage_def)

text \<open>
  C7. Receipt of a message raises an error for a frame whose leading tag has no
  handler: the frame \<^verbatim>\<open>[99,{"toString":1}]\<close> parses, the tag 99 has no
  handler, and building the text of the warning throws a TypeError, so that no
  warning is reported. The frame \<^verbatim>\<open>null\<close>, which has no tag at all, throws
  a TypeError when its leading element is read.
\<close>

theorem unhandled_frame_raises:
  \<open>onMessage (\<lambda>d. Some (JArr [JNum 99, JObj [(''toString'', JNum 1)]])) C
      \<lparr>data = ''[99,{"toString":1}]''\<rparr>
      (new_Protocol ''ws://host/dotproduct/v1/trench'' 1000) = Inl TypeError
   \<and> handlers (new_Protocol ''ws://host/dotproduct/v1/trench'' 1000) 99 = None
   \<and> onMessage (\<lambda>d. Some JNull) C \<lparr>data = ''null''\<rparr>
      (new_Protocol ''ws://host/dotproduct/v1/trench'' 1000) = Inl TypeError\<close>
  by (simp add: onMessage_def new_Protocol_fields)

section \<open>Stamping outbound messages\<close>

lemma send_outcome:
  "\<exists>st'. send stringify m st = Inr st'
     \<and> (if readyState (socket st) = OPEN
        then transmitted (socket st') = transmitted (socket st) @ [stringify m]
           \<and> packetQueue st' = packetQueue st
        else packetQueue st' = packetQueue st @ [stringify m]
           \<and> transmitted (socket st') = transmitted (socket st))"
proof (cases "readyState (socket st) = OPEN")
  case True
  then show ?thesis by (simp add: send_def WebSocket_send_def)
next
  case False
  then show ?thesis by (simp add: send_def)
qed

lemma stamped_frames:
  assumes "remoteTime st = Finite r"
  shows "(\<exists>st'. sendPosition stringify direction position velocity isSafe weaponData st = Inr st'
           \<and> (let frame = stringify (JArr
                    ([JNum 3, JNum r, number_json direction,
                      number_json (vector_x position), number_json (vector_y position),
                      number_json (vector_x velocity), number_json (vector_y velocity),
                      JBool isSafe]
                     @ (case weaponData of None \<Rightarrow> [] | Some w \<Rightarrow> if truthy w then [w] else [])))
              in if readyState (socket st) = OPEN
                 then transmitted (socket st') = transmitted (socket st) @ [frame]
                    \<and> packetQueue st' = packetQueue st
                 else packetQueue st' = packetQueue st @ [frame]
                    \<and> transmitted (socket st') = transmitted (socket st)))
       \<and> (\<exists>st'. sendFlagCaptured stringify ident st = Inr st'
           \<and> (let frame = stringify (JArr [JNum 11, JNum r, number_json ident])
              in if readyState (socket st) = OPEN
                 then transmitted (socket st') = transmitted (socket st) @ [frame]
                    \<and> packetQueue st' = packetQueue st
                 else packetQueue st' = packetQueue st @ [frame]
                    \<and> transmitted (socket st') = transmitted (socket st)))"
proof -
  have p: "positionPacket st direction position velocity isSafe weaponData =
             [JNum 3, JNum r, number_json direction,
              number_json (vector_x position), number_json (vector_y position),
              number_json (vector_x velocity), number_json (vector_y velocity), JBool isSafe]
             @ (case weaponData of None \<Rightarrow> [] | Some w \<Rightarrow> if truthy w then [w] else [])"
    by (simp add: positionPacket_def assms split: option.split)
  have f: "[JNum (C2S FLAG_CAPTURED), number_json (remoteTime st), number_json ident]
             = [JNum 11, JNum r, number_json ident]"
    by (simp add: assms)
  show ?thesis
    unfolding sendPosition_def sendFlagCaptured_def p f Let_def
    using send_outcome by (intro conjI) blast+
qed

text \<open>
  C9, as stated, fails. With no simulation attached and a stored delta of 3880,
  a position message and a flag-captured message carry 0 as their time. With a
  simulation whose clock reads 1 and a stored delta of \<open>2^53\<close>, the sum is
  rounded to \<open>2^53\<close> and the messages carry 0, where the sum reduced to 32 bits
  is 1.
\<close>

theorem stamp_is_zero:
  "positionPacket ((new_Protocol ''ws://host/dotproduct/v1/trench'' 1000)\<lparr>serverTimeDelta := Finite 3880\<rparr>)
       (Finite 4) \<lparr>vector_x = Finite (1 / 2), vector_y = Finite 3\<rparr>
       \<lparr>vector_x = Finite 0, vector_y = Finite (- 1)\<rparr> False None
     = [JNum 3, JNum 0, JNum 4, JNum (1 / 2), JNum 3, JNum 0, JNum (- 1), JBool False]
   \<and> (\<exists>st'. sendFlagCaptured
               (\<lambda>j. case j of JArr [t, JNum n, i] \<Rightarrow> (if n = 0 then ''zero'' else ''other'') | _ \<Rightarrow> ''?'')
               (Finite 7)
               ((new_Protocol ''ws://host/dotproduct/v1/trench'' 1000)\<lparr>serverTimeDelta := Finite 3880\<rparr>)
             = Inr st'
         \<and> packetQueue st' = [''zero''])
   \<and> remoteTime ((new_Protocol ''ws://host/dotproduct/v1/trench'' 1000)
         \<lparr>simulation := Some \<lparr>timeMillis = 1\<rparr>, serverTimeDelta := Finite 9007199254740992\<rparr>)
       = Finite 0
   \<and> (1 + 9007199254740992 + 2 ^ 31) mod 2 ^ 32 - 2 ^ 31 = (1 :: int)"
proof -
  have e: "exponent 9007199254740993 = 53"
    by (rule exponent_unique) simp_all
  have "(9007199254740993 :: rat) / 2 powi (53 - 52) = 9007199254740993 / 2"
    by simp
  moreover have "\<lfloor>9007199254740993 / 2 :: rat\<rfloor> = 4503599627370496"
    by (rule floor_unique) simp_all
  then have "roundTiesToEven (9007199254740993 / 2) = 4503599627370496"
    by (simp add: roundTiesToEven_def Let_def)
  ultimately have d: "double 9007199254740993 = Finite 9007199254740992"
    unfolding double_def Let_def e by simp
  have g: "getTimeMillis \<lparr>timeMillis = 1\<rparr> = Finite 1"
    using getTimeMillis_int [of "\<lparr>timeMillis = 1\<rparr>"] by simp
  have "ToInt32 (Finite (of_int 9007199254740992)) = 0"
    by (simp only: ToInt32_int) simp
  then have t: "ToInt32 (Finite 9007199254740992) = 0"
    by simp
  show ?thesis
    by (simp add: positionPacket_def remoteTime_def sendFlagCaptured_def send_def
        new_Protocol_fields g d asInt32_def t)
qed

text \<open>
  C9, as amended. With a simulation attached, and a simulation time and a
  stored delta that are integers of magnitude below \<open>2^52\<close>, a position message
  and a flag-captured message are handed to the transport (or queued, while the
  socket is not open) with the tag first and, as the second element, the
  simulation time plus the stored delta, reduced to 32 bits and read as two's
  complement. With no simulation attached the second element is 0.
\<close>

theorem stamped_with_remote_time:
  "(let stamped = (\<lambda>time.
       (\<exists>st'. sendPosition stringify direction position velocity isSafe weaponData st = Inr st'
           \<and> (let frame = stringify (JArr
                    ([JNum 3, JNum time, number_json direction,
                      number_json (vector_x position), number_json (vector_y position),
                      number_json (vector_x velocity), number_json (vector_y velocity),
                      JBool isSafe]
                     @ (case weaponData of None \<Rightarrow> [] | Some w \<Rightarrow> if truthy w then [w] else [])))
              in if readyState (socket st) = OPEN
                 then transmitted (socket st') = transmitted (socket st) @ [frame]
                    \<and> packetQueue st' = packetQueue st
                 else packetQueue st' = packetQueue st @ [frame]
                    \<and> transmitted (socket st') = transmitted (socket st)))
       \<and> (\<exists>st'. sendFlagCaptured stringify ident st = Inr st'
           \<and> (let frame = stringify (JArr [JNum 11, JNum time, number_json ident])
              in if readyState (socket st) = OPEN
                 then transmitted (socket st') = transmitted (socket st) @ [frame]
                    \<and> packetQueue st' = packetQueue st
                 else packetQueue st' = packetQueue st @ [frame]
                    \<and> transmitted (socket st') = transmitted (socket st))))
    in (simulation st = Some sim \<and> serverTimeDelta st = Finite (of_int d)
          \<and> \<bar>d\<bar> < 2 ^ 52 \<and> \<bar>timeMillis sim\<bar> < 2 ^ 52
        \<longrightarrow> stamped (of_int ((timeMillis sim + d + 2 ^ 31) mod 2 ^ 32 - 2 ^ 31)))
     \<and> (simulation st = None \<longrightarrow> stamped 0))"
proof -
  have 1: "remoteTime st = Finite (of_int ((timeMillis sim + d + 2 ^ 31) mod 2 ^ 32 - 2 ^ 31))"
    if "simulation st = Some sim" "serverTimeDelta st = Finite (of_int d)"
      "\<bar>d\<bar> < 2 ^ 52" "\<bar>timeMillis sim\<bar> < 2 ^ 52"
    using that by (rule remoteTime_int)
  have 2: "remoteTime st = Finite 0" if "simulation st = None"
    using that by (simp add: remoteTime_def)
  show ?thesis
    unfolding Let_def
    using stamped_frames [OF 1, unfolded Let_def, of stringify direction position velocity isSafe
        weaponData ident]
      stamped_frames [OF 2, unfolded Let_def, of stringify direction position velocity isSafe
        weaponData ident]
    by blast
qed

theorem stamped_with_remote_time_witness:
  "simulation ((new_Protocol ''ws://host/dotproduct/v1/trench'' 1000)
       \<lparr>simulation := Some \<lparr>timeMillis = 2147483000\<rparr>, serverTimeDelta := Finite 3880\<rparr>)
     = Some \<lparr>timeMillis = 2147483000\<rparr>
   \<and> serverTimeDelta ((new_Protocol ''ws://host/dotproduct/v1/trench'' 1000)
       \<lparr>simulation := Some \<lparr>timeMillis = 2147483000\<rparr>, serverTimeDelta := Finite 3880\<rparr>)
     = Finite (of_int 3880)
   \<and> \<bar>3880 :: int\<bar> < 2 ^ 52 \<and> \<bar>2147483000 :: int\<bar> < 2 ^ 52
   \<and> (2147483000 + 3880 + 2 ^ 31) mod 2 ^ 32 - 2 ^ 31 = (- 2147480416 :: int)
   \<and> (\<exists>st'. sendPosition
               (\<lambda>j. case j of JArr (t # JNum n # r) \<Rightarrow>
                        (if n = - 2147480416 then ''wrapped'' else if n = 0 then ''zero'' else ''other'')
                      | _ \<Rightarrow> ''?'')
               (Finite 4) \<lparr>vector_x = Finite (1 / 2), vector_y = Finite 3\<rparr>
               \<lparr>vector_x = Finite 0, vector_y = Finite (- 1)\<rparr> False None
               ((new_Protocol ''ws://host/dotproduct/v1/trench'' 1000)
                  \<lparr>simulation := Some \<lparr>timeMillis = 2147483000\<rparr>, serverTimeDelta := Finite 3880\<rparr>)
             = Inr st'
         \<and> packetQueue st' = [''wrapped''])
   \<and> (\<exists>st'. sendFlagCaptured
               (\<lambda>j. case j of JArr (t # JNum n # r) \<Rightarrow>
                        (if n = - 2147480416 then ''wrapped'' else if n = 0 then ''zero'' else ''other'')
                      | _ \<Rightarrow> ''?'')
               (Finite 7)
               ((new_Protocol ''ws://host/dotproduct/v1/trench'' 1000)
                  \<lparr>simulation := Some \<lparr>timeMillis = 2147483000\<rparr>, serverTimeDelta := Finite 3880\<rparr>)
             = Inr st'
         \<and> packetQueue st' = [''wrapped''])
   \<and> simulation (new_Protocol ''ws://host/dotproduct/v1/trench'' 1000) = None
   \<and> (\<exists>st'. sendFlagCaptured
               (\<lambda>j. case j of JArr (t # JNum n # r) \<Rightarrow>
                        (if n = - 2147480416 then ''wrapped'' else if n = 0 then ''zero'' else ''other'')
                      | _ \<Rightarrow> ''?'')
               (Finite 7) (new_Protocol ''ws://host/dotproduct/v1/trench'' 1000) = Inr st'
         \<and> packetQueue st' = [''zero''])"
proof -
  note a = stamped_with_remote_time
      [where st = "(new_Protocol ''ws://host/dotproduct/v1/trench'' 1000)
                    \<lparr>simulation := Some \<lparr>timeMillis = 2147483000\<rparr>, serverTimeDelta := Finite 3880\<rparr>"
        and sim = "\<lparr>timeMillis = 2147483000\<rparr>" and d = 3880
        and stringify = "\<lambda>j. case j of JArr (t # JNum n # r) \<Rightarrow>
                        (if n = - 2147480416 then ''wrapped'' else if n = 0 then ''zero'' else ''other'')
                      | _ \<Rightarrow> ''?''"
        and direction = "Finite 4" and position = "\<lparr>vector_x = Finite (1 / 2), vector_y = Finite 3\<rparr>"
        and velocity = "\<lparr>vector_x = Finite 0, vector_y = Finite (- 1)\<rparr>" and isSafe = False
        and weaponData = None and ident = "Finite 7"]
  note b = stamped_with_remote_time
      [where st = "new_Protocol ''ws://host/dotproduct/v1/trench'' 1000"
        and sim = "\<lparr>timeMillis = 2147483000\<rparr>" and d = 3880
        and stringify = "\<lambda>j. case j of JArr (t # JNum n # r) \<Rightarrow>
                        (if n = - 2147480416 then ''wrapped'' else if n = 0 then ''zero'' else ''other'')
                      | _ \<Rightarrow> ''?''"
        and direction = "Finite 4" and position = "\<lparr>vector_x = Finite (1 / 2), vector_y = Finite 3\<rparr>"
        and velocity = "\<lparr>vector_x = Finite 0, vector_y = Finite (- 1)\<rparr>" and isSafe = False
        and weaponData = None and ident = "Finite 7"]
  from a b show ?thesis
    by (auto simp add: Let_def new_Protocol_fields)
qed

end
